theory Spec2Isabelle
  imports Complex_Main
begin

section \<open>Data model (migration SQL and Prisma models)\<close>

text \<open>
  Timestamps are milliseconds since the epoch, as \<^verbatim>\<open>Date.now()\<close> gives them.
  Row ids are the opaque unique keys that \<^verbatim>\<open>cuid()\<close> produces; they are modelled as
  natural numbers, a new row receiving a key above every key of its table.
\<close>

type_synonym timestamp = int
type_synonym key = nat

datatype UserRole = ADMIN | CUSTOMER

datatype OtpType = LOGIN | VERIFICATION | PASSWORD_RESET

record User =
  user_id :: key
  user_email :: string
  user_password :: string
  user_firstName :: "string option"
  user_lastName :: "string option"
  user_avatar :: "string option"
  user_role :: UserRole
  user_isActive :: bool
  user_isEmailVerified :: bool
  user_emailVerificationToken :: "string option"
  user_passwordResetToken :: "string option"
  user_passwordResetExpires :: "timestamp option"
  user_lastLoginAt :: "timestamp option"
  user_createdAt :: timestamp
  user_updatedAt :: timestamp

record Otp =
  otp_id :: key
  otp_code :: string
  otp_expiresAt :: timestamp
  otp_isUsed :: bool
  otp_type :: OtpType
  otp_createdAt :: timestamp
  otp_userId :: key

record RefreshToken =
  rt_id :: key
  rt_token :: string
  rt_expiresAt :: timestamp
  rt_isRevoked :: bool
  rt_userAgent :: "string option"
  rt_ipAddress :: "string option"
  rt_createdAt :: timestamp
  rt_userId :: key

text \<open>A message handed to the mail transporter: recipient, subject and the code in its body.\<close>

record Mail =
  mail_to :: string
  mail_subject :: string
  mail_otpCode :: string

text \<open>
  The state the service works on: the three tables behind \<^verbatim>\<open>this.prisma\<close>, rows in
  insertion order, and the messages the transporter has accepted.
\<close>

record World =
  users :: "User list"
  otps :: "Otp list"
  refreshTokens :: "RefreshToken list"
  outbox :: "Mail list"

section \<open>External collaborators\<close>

text \<open>The two payloads that \<^verbatim>\<open>login\<close> and \<^verbatim>\<open>refreshAccessToken\<close> sign.\<close>

datatype JwtPayload =
  AccessPayload string key UserRole
  | RefreshPayload key

text \<open>
  What one call of the service reads from outside the store.
  \<^item> The clock, once for each place that reads it: \<^verbatim>\<open>date_now\<close> is the
    \<^verbatim>\<open>new Date()\<close> or \<^verbatim>\<open>Date.now()\<close> of the lookups, of the expiry check and of
    the expiry of a new code (each method evaluates one of these); \<^verbatim>\<open>date_lastLoginAt\<close> is
    the \<^verbatim>\<open>new Date()\<close> that \<^verbatim>\<open>verifyOtp\<close> writes into \<^verbatim>\<open>lastLoginAt\<close>;
    \<^verbatim>\<open>date_expiresAt\<close> is the \<^verbatim>\<open>const expiresAt = new Date()\<close> of \<^verbatim>\<open>login\<close> and
    \<^verbatim>\<open>refreshAccessToken\<close>. Nothing is assumed about their order.
  \<^item> \<^verbatim>\<open>setDate_getDate_plus d n\<close> is the instant that
    \<^verbatim>\<open>d.setDate(d.getDate() + n)\<close> leaves in \<^verbatim>\<open>d\<close>: the same local time of day
    \<^verbatim>\<open>n\<close> calendar days later in the server's time zone, which is \<^verbatim>\<open>n\<close> times
    86400000 ms later only when no clock change falls in between.
  \<^item> The timestamps that the ORM and the database put into \<^verbatim>\<open>createdAt\<close> and
    \<^verbatim>\<open>updatedAt\<close> of a row they write, one for each table (no method stamps two rows of
    one table).
  \<^item> \<^verbatim>\<open>Math.random()\<close> (idealised as a real number), bcrypt, the JWT service
    (\<^verbatim>\<open>jwt_verify\<close> is true when \<^verbatim>\<open>jwtService.verify\<close> returns instead of throwing) and
    the mail transporter (\<^verbatim>\<open>sendMail\<close> is true when the message is accepted).
\<close>

record Env =
  date_now :: timestamp
  date_lastLoginAt :: timestamp
  date_expiresAt :: timestamp
  setDate_getDate_plus :: "timestamp \<Rightarrow> int \<Rightarrow> timestamp"
  stamp_users :: timestamp
  stamp_otps :: timestamp
  stamp_refreshTokens :: timestamp
  math_random :: real
  bcrypt_hash :: "string \<Rightarrow> nat \<Rightarrow> string"
  bcrypt_compare :: "string \<Rightarrow> string \<Rightarrow> bool"
  jwt_sign :: "JwtPayload \<Rightarrow> string \<Rightarrow> string"
  jwt_verify :: "string \<Rightarrow> bool"
  sendMail :: "Mail \<Rightarrow> bool"

section \<open>Exceptions\<close>

text \<open>
  The exception classes the service and the mail service throw, and the error a Prisma
  \<^verbatim>\<open>create\<close> raises on a unique index (code P2002). \<^verbatim>\<open>ConflictException\<close> is the
  NestJS class for HTTP 409; no path of the service constructs it.
\<close>

datatype Exception =
  UnauthorizedException string
  | BadRequestException string
  | NotFoundException string
  | ConflictException string
  | Error string
  | PrismaClientKnownRequestError string

text \<open>
  The status \<^verbatim>\<open>GlobalExceptionFilter.catch\<close> answers with: \<^verbatim>\<open>getStatus()\<close> of an
  \<^verbatim>\<open>HttpException\<close>, and 500 for everything else.
\<close>

fun getStatus :: "Exception \<Rightarrow> nat" where
  "getStatus (UnauthorizedException m) = 401"
| "getStatus (BadRequestException m) = 400"
| "getStatus (NotFoundException m) = 404"
| "getStatus (ConflictException m) = 409"
| "getStatus (Error m) = 500"
| "getStatus (PrismaClientKnownRequestError m) = 500"

section \<open>Store operations (the Prisma calls the service makes)\<close>

definition cuid :: "key list \<Rightarrow> key" where
  "cuid ks = Suc (fold max ks 0)"

definition user_findUnique_email :: "World \<Rightarrow> string \<Rightarrow> User option" where
  "user_findUnique_email w e = find (\<lambda>u. user_email u = e) (users w)"

definition user_findUnique_id :: "World \<Rightarrow> key \<Rightarrow> User option" where
  "user_findUnique_id w i = find (\<lambda>u. user_id u = i) (users w)"

text \<open>
  \<^verbatim>\<open>prisma.user.update({ where: { id }, data })\<close>; \<^verbatim>\<open>updatedAt\<close> is stamped.
  The service calls \<^verbatim>\<open>update\<close> only with the id of a row it has just read, so the
  case of a missing row does not arise, here and for the other two tables.
\<close>

definition user_update :: "World \<Rightarrow> Env \<Rightarrow> key \<Rightarrow> (User \<Rightarrow> User) \<Rightarrow> World" where
  "user_update w env i f =
     w\<lparr>users := map (\<lambda>u. if user_id u = i then (f u)\<lparr>user_updatedAt := stamp_users env\<rparr> else u)
                    (users w)\<rparr>"

text \<open>\<^verbatim>\<open>prisma.otp.findFirst({ where })\<close>: the first row, in table order, that matches.\<close>

definition otp_findFirst :: "World \<Rightarrow> (Otp \<Rightarrow> bool) \<Rightarrow> Otp option" where
  "otp_findFirst w P = find P (otps w)"

text \<open>\<^verbatim>\<open>prisma.otp.updateMany({ where, data: { isUsed: true } })\<close>.\<close>

definition otp_updateMany :: "World \<Rightarrow> (Otp \<Rightarrow> bool) \<Rightarrow> World" where
  "otp_updateMany w P =
     w\<lparr>otps := map (\<lambda>otp. if P otp then otp\<lparr>otp_isUsed := True\<rparr> else otp) (otps w)\<rparr>"

text \<open>\<^verbatim>\<open>prisma.otp.update({ where: { id }, data: { isUsed: true } })\<close>.\<close>

definition otp_update :: "World \<Rightarrow> key \<Rightarrow> World" where
  "otp_update w i = otp_updateMany w (\<lambda>otp. otp_id otp = i)"

text \<open>\<^verbatim>\<open>prisma.otp.create\<close>: \<^verbatim>\<open>isUsed\<close> defaults to false, \<^verbatim>\<open>createdAt\<close> to the stamp.\<close>

definition otp_create :: "World \<Rightarrow> Env \<Rightarrow> string \<Rightarrow> timestamp \<Rightarrow> OtpType \<Rightarrow> key \<Rightarrow> World" where
  "otp_create w env code expiresAt ty uid =
     w\<lparr>otps := otps w @
        [\<lparr>otp_id = cuid (map otp_id (otps w)), otp_code = code, otp_expiresAt = expiresAt,
          otp_isUsed = False, otp_type = ty, otp_createdAt = stamp_otps env,
          otp_userId = uid\<rparr>]\<rparr>"

definition refreshToken_findUnique :: "World \<Rightarrow> string \<Rightarrow> RefreshToken option" where
  "refreshToken_findUnique w tok = find (\<lambda>r. rt_token r = tok) (refreshTokens w)"

text \<open>\<^verbatim>\<open>prisma.refreshToken.updateMany({ where, data: { isRevoked: true } })\<close>.\<close>

definition refreshToken_updateMany :: "World \<Rightarrow> (RefreshToken \<Rightarrow> bool) \<Rightarrow> World" where
  "refreshToken_updateMany w P =
     w\<lparr>refreshTokens :=
         map (\<lambda>r. if P r then r\<lparr>rt_isRevoked := True\<rparr> else r) (refreshTokens w)\<rparr>"

text \<open>\<^verbatim>\<open>prisma.refreshToken.update({ where: { id }, data: { isRevoked: true } })\<close>.\<close>

definition refreshToken_update :: "World \<Rightarrow> key \<Rightarrow> World" where
  "refreshToken_update w i = refreshToken_updateMany w (\<lambda>r. rt_id r = i)"

text \<open>
  \<^verbatim>\<open>prisma.refreshToken.create\<close>: the column \<^verbatim>\<open>token\<close> is UNIQUE, so a string that a
  row already holds is refused; \<^verbatim>\<open>isRevoked\<close> defaults to false.
\<close>

definition refreshToken_create ::
  "World \<Rightarrow> Env \<Rightarrow> string \<Rightarrow> key \<Rightarrow> timestamp \<Rightarrow> string option \<Rightarrow> string option
     \<Rightarrow> Exception + World" where
  "refreshToken_create w env tok uid expiresAt userAgent ipAddress =
     (if tok \<in> set (map rt_token (refreshTokens w))
      then Inl (PrismaClientKnownRequestError ''P2002'')
      else Inr (w\<lparr>refreshTokens := refreshTokens w @
        [\<lparr>rt_id = cuid (map rt_id (refreshTokens w)), rt_token = tok,
          rt_expiresAt = expiresAt, rt_isRevoked = False, rt_userAgent = userAgent,
          rt_ipAddress = ipAddress, rt_createdAt = stamp_refreshTokens env, rt_userId = uid\<rparr>]\<rparr>))"

section \<open>Token engine (auth.service.ts)\<close>

record LoginUser =
  lu_id :: key
  lu_email :: string
  lu_firstName :: "string option"
  lu_lastName :: "string option"
  lu_role :: UserRole
  lu_isEmailVerified :: bool

record LoginResult =
  lr_access_token :: string
  lr_refresh_token :: string
  lr_user :: LoginUser

record TokenPair =
  access_token :: string
  refresh_token :: string

definition login ::
  "World \<Rightarrow> Env \<Rightarrow> User \<Rightarrow> string option \<Rightarrow> string option
     \<Rightarrow> (Exception + LoginResult) \<times> World" where
  "login w env user userAgent ipAddress =
     (let accessToken =
            jwt_sign env (AccessPayload (user_email user) (user_id user) (user_role user)) ''1d'';
          refreshTokenString = jwt_sign env (RefreshPayload (user_id user)) ''7d'';
          expiresAt = setDate_getDate_plus env (date_expiresAt env) 7
      in case refreshToken_create w env refreshTokenString (user_id user) expiresAt
                userAgent ipAddress of
           Inl e \<Rightarrow> (Inl e, w)
         | Inr w' \<Rightarrow>
             (Inr \<lparr>lr_access_token = accessToken, lr_refresh_token = refreshTokenString,
                   lr_user = \<lparr>lu_id = user_id user, lu_email = user_email user,
                              lu_firstName = user_firstName user,
                              lu_lastName = user_lastName user, lu_role = user_role user,
                              lu_isEmailVerified = user_isEmailVerified user\<rparr>\<rparr>, w'))"

text \<open>
  \<^verbatim>\<open>refreshAccessToken\<close>. \<^verbatim>\<open>include: { user: true }\<close> joins the owning user; the
  foreign key guarantees it exists, and reading \<^verbatim>\<open>storedToken.user.email\<close> of a missing
  one would be a TypeError.
\<close>

definition refreshAccessToken ::
  "World \<Rightarrow> Env \<Rightarrow> string \<Rightarrow> string option \<Rightarrow> string option
     \<Rightarrow> (Exception + TokenPair) \<times> World" where
  "refreshAccessToken w env refreshToken userAgent ipAddress =
     (if \<not> jwt_verify env refreshToken
      then (Inl (UnauthorizedException ''Invalid or expired refresh token''), w)
      else
        (case refreshToken_findUnique w refreshToken of
           None \<Rightarrow> (Inl (UnauthorizedException ''Refresh token not found''), w)
         | Some storedToken \<Rightarrow>
             if rt_isRevoked storedToken
             then (Inl (UnauthorizedException ''Refresh token has been revoked''), w)
             else if rt_expiresAt storedToken < date_now env
             then (Inl (UnauthorizedException ''Refresh token has expired''), w)
             else
               (case user_findUnique_id w (rt_userId storedToken) of
                  None \<Rightarrow> (Inl (Error ''TypeError: Cannot read properties of null''), w)
                | Some user \<Rightarrow>
                    (let newAccessToken =
                           jwt_sign env
                             (AccessPayload (user_email user) (user_id user) (user_role user))
                             ''1d'';
                         newRefreshToken = jwt_sign env (RefreshPayload (user_id user)) ''7d'';
                         w1 = refreshToken_update w (rt_id storedToken);
                         expiresAt = setDate_getDate_plus env (date_expiresAt env) 7
                     in (case refreshToken_create w1 env newRefreshToken (user_id user)
                                 expiresAt userAgent ipAddress of
                           Inl e \<Rightarrow> (Inl e, w1)
                         | Inr w2 \<Rightarrow>
                             (Inr \<lparr>access_token = newAccessToken,
                                   refresh_token = newRefreshToken\<rparr>, w2))))))"

definition revokeRefreshToken :: "World \<Rightarrow> string \<Rightarrow> (Exception + string) \<times> World" where
  "revokeRefreshToken w refreshToken =
     (case refreshToken_findUnique w refreshToken of
        None \<Rightarrow> (Inl (NotFoundException ''Refresh token not found''), w)
      | Some storedToken \<Rightarrow>
          (Inr ''Refresh token revoked successfully'',
           refreshToken_update w (rt_id storedToken)))"

definition revokeAllUserRefreshTokens :: "World \<Rightarrow> key \<Rightarrow> (Exception + string) \<times> World" where
  "revokeAllUserRefreshTokens w userId =
     (Inr ''All refresh tokens revoked successfully'',
      refreshToken_updateMany w (\<lambda>r. rt_userId r = userId \<and> \<not> rt_isRevoked r))"

section \<open>OTP codes\<close>

text \<open>\<^verbatim>\<open>Number.prototype.toString()\<close> on an integer: its decimal digits.\<close>

fun nat_toString :: "nat \<Rightarrow> string" where
  "nat_toString n =
     (if n < 10 then [''0123456789'' ! n]
      else nat_toString (n div 10) @ [''0123456789'' ! (n mod 10)])"

declare nat_toString.simps [simp del]

definition Number_toString :: "int \<Rightarrow> string" where
  "Number_toString n =
     (if n < 0 then CHR ''-'' # nat_toString (nat (- n)) else nat_toString (nat n))"

text \<open>\<^verbatim>\<open>Math.floor(100000 + Math.random() * 900000).toString()\<close>.\<close>

definition newOtpCode :: "Env \<Rightarrow> string" where
  "newOtpCode env = Number_toString \<lfloor>100000 + math_random env * 900000\<rfloor>"

section \<open>Mail service (email.service.ts)\<close>

text \<open>
  Each method hands one message to the transporter and turns a failure of
  \<^verbatim>\<open>sendMail\<close> into its own \<^verbatim>\<open>Error\<close>.
\<close>

definition sendVerificationOtp ::
  "World \<Rightarrow> Env \<Rightarrow> string \<Rightarrow> string \<Rightarrow> (Exception + unit) \<times> World" where
  "sendVerificationOtp w env email otpCode =
     (let mailOptions = \<lparr>mail_to = email, mail_subject = ''Verify Your Email Address'',
                          mail_otpCode = otpCode\<rparr>
      in if sendMail env mailOptions
         then (Inr (), w\<lparr>outbox := outbox w @ [mailOptions]\<rparr>)
         else (Inl (Error ''Failed to send verification email''), w))"

definition sendPasswordResetOtp ::
  "World \<Rightarrow> Env \<Rightarrow> string \<Rightarrow> string \<Rightarrow> (Exception + unit) \<times> World" where
  "sendPasswordResetOtp w env email otpCode =
     (let mailOptions = \<lparr>mail_to = email, mail_subject = ''Reset Your Password'',
                          mail_otpCode = otpCode\<rparr>
      in if sendMail env mailOptions
         then (Inr (), w\<lparr>outbox := outbox w @ [mailOptions]\<rparr>)
         else (Inl (Error ''Failed to send password reset email''), w))"

definition sendOtpEmail ::
  "World \<Rightarrow> Env \<Rightarrow> string \<Rightarrow> string \<Rightarrow> (Exception + unit) \<times> World" where
  "sendOtpEmail w env email otpCode =
     (let mailOptions = \<lparr>mail_to = email, mail_subject = ''Your OTP Code'',
                          mail_otpCode = otpCode\<rparr>
      in if sendMail env mailOptions
         then (Inr (), w\<lparr>outbox := outbox w @ [mailOptions]\<rparr>)
         else (Inl (Error ''Failed to send OTP email''), w))"

section \<open>Identity service (auth.service.ts)\<close>

text \<open>
  Modelled from the spec: \<^verbatim>\<open>RegisterDto\<close> (dto/auth.dto.ts is not among the sources)
  carries the email, the password and the name fields of the register request.
\<close>

record RegisterDto =
  dto_email :: string
  dto_password :: string
  dto_firstName :: "string option"
  dto_lastName :: "string option"

text \<open>
  \<^verbatim>\<open>prisma.user.create({ data: { ...createUserDto, password: hashedPassword } })\<close>: the
  other columns take the defaults of the table (role CUSTOMER, active, email not
  verified); the unique index on \<^verbatim>\<open>email\<close> refuses a second row with the same email.
\<close>

definition user_create ::
  "World \<Rightarrow> Env \<Rightarrow> RegisterDto \<Rightarrow> string \<Rightarrow> Exception + (User \<times> World)" where
  "user_create w env createUserDto hashedPassword =
     (if dto_email createUserDto \<in> set (map user_email (users w))
      then Inl (PrismaClientKnownRequestError ''P2002'')
      else
        let user = \<lparr>user_id = cuid (map user_id (users w)),
                     user_email = dto_email createUserDto,
                     user_password = hashedPassword,
                     user_firstName = dto_firstName createUserDto,
                     user_lastName = dto_lastName createUserDto,
                     user_avatar = None, user_role = CUSTOMER, user_isActive = True,
                     user_isEmailVerified = False, user_emailVerificationToken = None,
                     user_passwordResetToken = None, user_passwordResetExpires = None,
                     user_lastLoginAt = None, user_createdAt = stamp_users env,
                     user_updatedAt = stamp_users env\<rparr>
        in Inr (user, w\<lparr>users := users w @ [user]\<rparr>))"

text \<open>
  A user row as the JavaScript object Prisma returns, and the rest destructuring
  \<^verbatim>\<open>const { password: _, ...result } = user\<close> that drops one property of it.
\<close>

datatype JsValue =
  JString string
  | JBool bool
  | JDate timestamp
  | JKey key
  | JRole UserRole
  | JNull

fun JOptString :: "string option \<Rightarrow> JsValue" where
  "JOptString None = JNull"
| "JOptString (Some x) = JString x"

fun JOptDate :: "timestamp option \<Rightarrow> JsValue" where
  "JOptDate None = JNull"
| "JOptDate (Some t) = JDate t"

definition userObject :: "User \<Rightarrow> (string \<times> JsValue) list" where
  "userObject u =
     [(''id'', JKey (user_id u)), (''email'', JString (user_email u)),
      (''password'', JString (user_password u)),
      (''firstName'', JOptString (user_firstName u)),
      (''lastName'', JOptString (user_lastName u)),
      (''avatar'', JOptString (user_avatar u)), (''role'', JRole (user_role u)),
      (''isActive'', JBool (user_isActive u)),
      (''isEmailVerified'', JBool (user_isEmailVerified u)),
      (''emailVerificationToken'', JOptString (user_emailVerificationToken u)),
      (''passwordResetToken'', JOptString (user_passwordResetToken u)),
      (''passwordResetExpires'', JOptDate (user_passwordResetExpires u)),
      (''lastLoginAt'', JOptDate (user_lastLoginAt u)),
      (''createdAt'', JDate (user_createdAt u)), (''updatedAt'', JDate (user_updatedAt u))]"

definition omitPassword :: "(string \<times> JsValue) list \<Rightarrow> (string \<times> JsValue) list" where
  "omitPassword obj = filter (\<lambda>kv. fst kv \<noteq> ''password'') obj"

record RegisterResult =
  rr_message :: string
  rr_user :: "(string \<times> JsValue) list"

definition register :: "World \<Rightarrow> Env \<Rightarrow> RegisterDto \<Rightarrow> (Exception + RegisterResult) \<times> World" where
  "register w env createUserDto =
     (case user_findUnique_email w (dto_email createUserDto) of
        Some existingUser \<Rightarrow> (Inl (UnauthorizedException ''User already exists''), w)
      | None \<Rightarrow>
          (let hashedPassword = bcrypt_hash env (dto_password createUserDto) 10
           in case user_create w env createUserDto hashedPassword of
                Inl e \<Rightarrow> (Inl e, w)
              | Inr (user, w1) \<Rightarrow>
                  (let otpCode = newOtpCode env;
                       expiresAt = date_now env + 600000;
                       w2 = otp_create w1 env otpCode expiresAt VERIFICATION (user_id user)
                   in case sendVerificationOtp w2 env (user_email user) otpCode of
                        (Inl e, w3) \<Rightarrow> (Inl e, w3)
                      | (Inr u, w3) \<Rightarrow>
                          (Inr \<lparr>rr_message = ''User registered successfully. Please check your email for the verification code.'',
                                rr_user = omitPassword (userObject user)\<rparr>, w3))))"

definition verifyEmail :: "World \<Rightarrow> Env \<Rightarrow> string \<Rightarrow> string \<Rightarrow> (Exception + string) \<times> World" where
  "verifyEmail w env email otpCode =
     (case user_findUnique_email w email of
        None \<Rightarrow> (Inl (NotFoundException ''User not found''), w)
      | Some user \<Rightarrow>
          if user_isEmailVerified user
          then (Inl (BadRequestException ''Email is already verified''), w)
          else
            (case otp_findFirst w (\<lambda>otp. otp_userId otp = user_id user \<and> otp_code otp = otpCode
                     \<and> otp_type otp = VERIFICATION \<and> \<not> otp_isUsed otp
                     \<and> otp_expiresAt otp > date_now env) of
               None \<Rightarrow> (Inl (BadRequestException ''Invalid or expired verification code''), w)
             | Some otp \<Rightarrow>
                 (let w1 = otp_update w (otp_id otp);
                      w2 = user_update w1 env (user_id user)
                             (\<lambda>u. u\<lparr>user_isEmailVerified := True\<rparr>)
                  in (Inr ''Email verified successfully'', w2))))"

definition resendVerificationEmail ::
  "World \<Rightarrow> Env \<Rightarrow> string \<Rightarrow> (Exception + string) \<times> World" where
  "resendVerificationEmail w env email =
     (case user_findUnique_email w email of
        None \<Rightarrow> (Inl (NotFoundException ''User not found''), w)
      | Some user \<Rightarrow>
          if user_isEmailVerified user
          then (Inl (BadRequestException ''Email is already verified''), w)
          else
            (let w1 = otp_updateMany w (\<lambda>otp. otp_userId otp = user_id user
                         \<and> otp_type otp = VERIFICATION \<and> \<not> otp_isUsed otp);
                 otpCode = newOtpCode env;
                 expiresAt = date_now env + 600000;
                 w2 = otp_create w1 env otpCode expiresAt VERIFICATION (user_id user)
             in case sendVerificationOtp w2 env email otpCode of
                  (Inl e, w3) \<Rightarrow> (Inl e, w3)
                | (Inr u, w3) \<Rightarrow> (Inr ''Verification code sent successfully'', w3)))"

definition forgotPassword :: "World \<Rightarrow> Env \<Rightarrow> string \<Rightarrow> (Exception + string) \<times> World" where
  "forgotPassword w env email =
     (case user_findUnique_email w email of
        None \<Rightarrow>
          (Inr ''If an account with that email exists, we have sent a password reset code.'', w)
      | Some user \<Rightarrow>
          (let w1 = otp_updateMany w (\<lambda>otp. otp_userId otp = user_id user
                       \<and> otp_type otp = PASSWORD_RESET \<and> \<not> otp_isUsed otp);
               otpCode = newOtpCode env;
               expiresAt = date_now env + 600000;
               w2 = otp_create w1 env otpCode expiresAt PASSWORD_RESET (user_id user)
           in case sendPasswordResetOtp w2 env email otpCode of
                (Inl e, w3) \<Rightarrow> (Inl e, w3)
              | (Inr u, w3) \<Rightarrow>
                  (Inr ''If an account with that email exists, we have sent a password reset code.'',
                   w3)))"

definition resetPassword ::
  "World \<Rightarrow> Env \<Rightarrow> string \<Rightarrow> string \<Rightarrow> string \<Rightarrow> (Exception + string) \<times> World" where
  "resetPassword w env email otpCode newPassword =
     (case user_findUnique_email w email of
        None \<Rightarrow> (Inl (BadRequestException ''User not found''), w)
      | Some user \<Rightarrow>
          (case otp_findFirst w (\<lambda>otp. otp_userId otp = user_id user \<and> otp_code otp = otpCode
                   \<and> otp_type otp = PASSWORD_RESET \<and> \<not> otp_isUsed otp
                   \<and> otp_expiresAt otp > date_now env) of
             None \<Rightarrow> (Inl (BadRequestException ''Invalid or expired reset code''), w)
           | Some otp \<Rightarrow>
               (let w1 = otp_update w (otp_id otp);
                    hashedPassword = bcrypt_hash env newPassword 10;
                    w2 = user_update w1 env (user_id user)
                           (\<lambda>u. u\<lparr>user_password := hashedPassword\<rparr>)
                in (Inr ''Password reset successfully'', w2))))"

definition sendOtp :: "World \<Rightarrow> Env \<Rightarrow> string \<Rightarrow> (Exception + string) \<times> World" where
  "sendOtp w env email =
     (case user_findUnique_email w email of
        None \<Rightarrow> (Inl (NotFoundException ''User not found''), w)
      | Some user \<Rightarrow>
          (let otpCode = newOtpCode env;
               expiresAt = date_now env + 600000;
               w1 = otp_updateMany w (\<lambda>otp. otp_userId otp = user_id user \<and> \<not> otp_isUsed otp);
               w2 = otp_create w1 env otpCode expiresAt LOGIN (user_id user)
           in case sendOtpEmail w2 env email otpCode of
                (Inl e, w3) \<Rightarrow> (Inl e, w3)
              | (Inr u, w3) \<Rightarrow> (Inr ''OTP sent successfully'', w3)))"

definition verifyOtp ::
  "World \<Rightarrow> Env \<Rightarrow> string \<Rightarrow> string \<Rightarrow> string option \<Rightarrow> string option
     \<Rightarrow> (Exception + LoginResult) \<times> World" where
  "verifyOtp w env email otpCode userAgent ipAddress =
     (case user_findUnique_email w email of
        None \<Rightarrow> (Inl (NotFoundException ''User not found''), w)
      | Some user \<Rightarrow>
          (case otp_findFirst w (\<lambda>otp. otp_userId otp = user_id user \<and> otp_code otp = otpCode
                   \<and> \<not> otp_isUsed otp \<and> otp_expiresAt otp > date_now env) of
             None \<Rightarrow> (Inl (BadRequestException ''Invalid or expired OTP''), w)
           | Some otp \<Rightarrow>
               (let w1 = otp_update w (otp_id otp);
                    w2 = user_update w1 env (user_id user)
                           (\<lambda>u. u\<lparr>user_lastLoginAt := Some (date_lastLoginAt env)\<rparr>)
                in login w2 env user userAgent ipAddress)))"

section \<open>Notions of the specification\<close>

text \<open>
  A stored code matches a presented one when it belongs to the user, carries the same code,
  is unused and expires strictly after now, and, on a type-scoped path, has that type.
\<close>

definition otpMatch :: "key \<Rightarrow> string \<Rightarrow> OtpType option \<Rightarrow> timestamp \<Rightarrow> Otp \<Rightarrow> bool" where
  "otpMatch uid code ty t otp \<longleftrightarrow>
     otp_userId otp = uid \<and> otp_code otp = code \<and> \<not> otp_isUsed otp \<and> otp_expiresAt otp > t
     \<and> (case ty of None \<Rightarrow> True | Some k \<Rightarrow> otp_type otp = k)"

text \<open>The valid codes of a user and a type at a time: unused and not yet expired.\<close>

definition validOtps :: "World \<Rightarrow> key \<Rightarrow> OtpType \<Rightarrow> timestamp \<Rightarrow> Otp list" where
  "validOtps w uid ty t =
     filter (\<lambda>otp. otp_userId otp = uid \<and> otp_type otp = ty \<and> \<not> otp_isUsed otp
                  \<and> otp_expiresAt otp > t) (otps w)"

section \<open>Example states\<close>

definition alice :: User where
  "alice = \<lparr>user_id = 1, user_email = ''a@x.com'', user_password = ''#Pw1@aaaa'',
     user_firstName = Some ''Ann'', user_lastName = None, user_avatar = None,
     user_role = CUSTOMER, user_isActive = True, user_isEmailVerified = False,
     user_emailVerificationToken = None, user_passwordResetToken = None,
     user_passwordResetExpires = None, user_lastLoginAt = None, user_createdAt = 0,
     user_updatedAt = 0\<rparr>"

definition token1 :: RefreshToken where
  "token1 = \<lparr>rt_id = 1, rt_token = ''R1'', rt_expiresAt = 1000, rt_isRevoked = False,
     rt_userAgent = None, rt_ipAddress = None, rt_createdAt = 0, rt_userId = 1\<rparr>"

definition world0 :: World where
  "world0 = \<lparr>users = [alice], otps = [], refreshTokens = [token1], outbox = []\<rparr>"

text \<open>
  In \<^verbatim>\<open>env0\<close> the week ahead contains a clock change forward: seven calendar days are
  one hour short of 7 * 86400000 ms.
\<close>

definition env0 :: Env where
  "env0 = \<lparr>date_now = 500, date_lastLoginAt = 501, date_expiresAt = 502,
     setDate_getDate_plus = (\<lambda>d n. d + n * 86400000 - 3600000),
     stamp_users = 503, stamp_otps = 504, stamp_refreshTokens = 505,
     math_random = 1 / 2,
     bcrypt_hash = (\<lambda>p n. CHR ''#'' # p), bcrypt_compare = (\<lambda>p h. h = CHR ''#'' # p),
     jwt_sign = (\<lambda>p e. case p of AccessPayload a b c \<Rightarrow> ''A2'' | RefreshPayload k \<Rightarrow> ''R2''),
     jwt_verify = (\<lambda>t. True), sendMail = (\<lambda>m. True)\<rparr>"

definition env1 :: Env where
  "env1 = env0\<lparr>date_now := 600,
     jwt_sign := (\<lambda>p e. case p of AccessPayload a b c \<Rightarrow> ''A3'' | RefreshPayload k \<Rightarrow> ''R3'')\<rparr>"

definition token1_revoked :: RefreshToken where
  "token1_revoked = token1\<lparr>rt_isRevoked := True\<rparr>"

definition world_revoked :: World where
  "world_revoked = world0\<lparr>refreshTokens := [token1_revoked]\<rparr>"

definition env_forged :: Env where
  "env_forged = env0\<lparr>jwt_verify := (\<lambda>t. False)\<rparr>"

definition env_late :: Env where
  "env_late = env0\<lparr>date_now := 2000\<rparr>"

definition env_same :: Env where
  "env_same = env0\<lparr>jwt_sign :=
     (\<lambda>p e. case p of AccessPayload a b c \<Rightarrow> ''A2'' | RefreshPayload k \<Rightarrow> ''R1'')\<rparr>"

definition otp_v :: Otp where
  "otp_v = \<lparr>otp_id = 1, otp_code = ''123456'', otp_expiresAt = 1000, otp_isUsed = False,
     otp_type = VERIFICATION, otp_createdAt = 0, otp_userId = 1\<rparr>"

definition otp_p :: Otp where
  "otp_p = \<lparr>otp_id = 2, otp_code = ''654321'', otp_expiresAt = 1000, otp_isUsed = False,
     otp_type = PASSWORD_RESET, otp_createdAt = 0, otp_userId = 1\<rparr>"

definition world_otp :: World where
  "world_otp = world0\<lparr>otps := [otp_v, otp_p]\<rparr>"

definition bob_dto :: RegisterDto where
  "bob_dto = \<lparr>dto_email = ''b@x.com'', dto_password = ''Pw1@aaaa'',
     dto_firstName = Some ''Bob'', dto_lastName = None\<rparr>"

definition ann_dto :: RegisterDto where
  "ann_dto = \<lparr>dto_email = ''a@x.com'', dto_password = ''Pw1@aaaa'',
     dto_firstName = Some ''Ann'', dto_lastName = None\<rparr>"

definition env_nomail :: Env where
  "env_nomail = env0\<lparr>sendMail := (\<lambda>m. False)\<rparr>"

section \<open>Lists and keys\<close>

lemma find_map_preserve:
  assumes "\<And>x. Q (f x) = Q x"
  shows "find Q (map f xs) = map_option f (find Q xs)"
  using assms by (induction xs) auto

lemma find_Some_prop: "find Q xs = Some x \<Longrightarrow> Q x"
  by (induction xs) (auto split: if_splits)

lemma find_Some_mem: "find Q xs = Some x \<Longrightarrow> x \<in> set xs"
  by (induction xs) (auto split: if_splits)

lemma find_append_new:
  "find Q (xs @ [y]) = (case find Q xs of Some x \<Rightarrow> Some x | None \<Rightarrow> if Q y then Some y else None)"
  by (induction xs) auto

lemma find_None_notin: "find Q xs = None \<longleftrightarrow> (\<forall>x \<in> set xs. \<not> Q x)"
  by (induction xs) auto

lemma length_filter_imp:
  assumes "\<And>x. P x \<Longrightarrow> Q x"
  shows "length (filter P xs) \<le> length (filter Q xs)"
  using assms by (induction xs) auto

lemma length_filter_map_le:
  assumes "\<And>x. V (f x) \<Longrightarrow> V x"
  shows "length (filter V (map f xs)) \<le> length (filter V xs)"
  using assms by (induction xs) auto

lemma filter_map_empty:
  assumes "\<And>x. x \<in> set xs \<Longrightarrow> \<not> V (f x)"
  shows "filter V (map f xs) = []"
  using assms by (induction xs) auto

lemma fold_max_ge: "(a::nat) \<le> fold max ks a"
proof (induction ks arbitrary: a)
  case Nil
  show ?case by simp
next
  case (Cons k ks)
  have "a \<le> max k a" by simp
  also have "\<dots> \<le> fold max ks (max k a)" by (rule Cons.IH)
  finally show ?case by simp
qed

lemma fold_max_mem: "k \<in> set ks \<Longrightarrow> (k::nat) \<le> fold max ks a"
proof (induction ks arbitrary: a)
  case Nil
  then show ?case by simp
next
  case (Cons x ks)
  show ?case
  proof (cases "k = x")
    case True
    have "k \<le> max x a" using True by simp
    also have "\<dots> \<le> fold max ks (max x a)" by (rule fold_max_ge)
    finally show ?thesis by simp
  next
    case False
    with Cons.prems have "k \<in> set ks" by simp
    then show ?thesis using Cons.IH by simp
  qed
qed

lemma cuid_fresh: "cuid ks \<notin> set ks"
  using fold_max_mem[of "cuid ks" ks 0] by (auto simp: cuid_def)

section \<open>Example states unfolded\<close>

lemmas ex_defs = alice_def token1_def world0_def env0_def env1_def

lemmas rt_defs = refreshAccessToken_def refreshToken_findUnique_def refreshToken_update_def
  refreshToken_updateMany_def refreshToken_create_def user_findUnique_id_def cuid_def Let_def

lemmas ex2_defs = token1_revoked_def world_revoked_def

lemmas otp_ex_defs = otp_v_def otp_p_def world_otp_def

section \<open>Refresh tokens: lookups and updates\<close>

lemma rt_find_updateMany:
  "refreshToken_findUnique (refreshToken_updateMany w P) tok =
     map_option (\<lambda>r. if P r then r\<lparr>rt_isRevoked := True\<rparr> else r) (refreshToken_findUnique w tok)"
  unfolding refreshToken_findUnique_def refreshToken_updateMany_def
  by (simp add: find_map_preserve)

lemma rt_tokens_updateMany:
  "map rt_token (refreshTokens (refreshToken_updateMany w P)) = map rt_token (refreshTokens w)"
  unfolding refreshToken_updateMany_def by (induction "refreshTokens w") (simp_all add: comp_def)

lemma rt_users_updateMany: "users (refreshToken_updateMany w P) = users w"
  by (simp add: refreshToken_updateMany_def)

lemma rt_find_update_self:
  assumes "refreshToken_findUnique w tok = Some r"
  shows "refreshToken_findUnique (refreshToken_update w (rt_id r)) tok
           = Some (r\<lparr>rt_isRevoked := True\<rparr>)"
  using assms by (simp add: refreshToken_update_def rt_find_updateMany)

lemma updateMany_idem:
  "refreshToken_updateMany (refreshToken_updateMany w P) P = refreshToken_updateMany w P"
proof -
  have "map (\<lambda>r. if P r then r\<lparr>rt_isRevoked := True\<rparr> else r)
          (map (\<lambda>r. if P r then r\<lparr>rt_isRevoked := True\<rparr> else r) xs)
        = map (\<lambda>r. if P r then r\<lparr>rt_isRevoked := True\<rparr> else r) xs" for xs
    by (induction xs) simp_all
  then show ?thesis
    by (simp add: refreshToken_updateMany_def)
qed

lemma rt_find_create:
  assumes "refreshTokens w' = refreshTokens w1 @ [row]"
  shows "refreshToken_findUnique w' tok =
           (case refreshToken_findUnique w1 tok of Some x \<Rightarrow> Some x
            | None \<Rightarrow> if rt_token row = tok then Some row else None)"
  using assms by (simp add: refreshToken_findUnique_def find_append_new)

lemma rt_find_None_iff:
  "refreshToken_findUnique w tok = None \<longleftrightarrow> tok \<notin> set (map rt_token (refreshTokens w))"
  unfolding refreshToken_findUnique_def find_None_notin by (simp add: image_iff) blast

lemma user_find_id_self:
  assumes "user_findUnique_id w i = Some u"
  shows "user_id u = i"
  using assms find_Some_prop[of "\<lambda>u. user_id u = i" "users w" u]
  by (simp add: user_findUnique_id_def)

lemma refresh_revoked_fails:
  assumes "refreshToken_findUnique w tok = Some r" "rt_isRevoked r"
  shows "refreshAccessToken w env tok ua ip =
           (if jwt_verify env tok
            then (Inl (UnauthorizedException ''Refresh token has been revoked''), w)
            else (Inl (UnauthorizedException ''Invalid or expired refresh token''), w))"
  using assms by (simp add: refreshAccessToken_def)

lemma refresh_success:
  assumes "jwt_verify env tok" and "refreshToken_findUnique w tok = Some r"
    and "\<not> rt_isRevoked r" and "date_now env \<le> rt_expiresAt r"
    and "user_findUnique_id w (rt_userId r) = Some u"
    and "jwt_sign env (RefreshPayload (user_id u)) ''7d'' \<notin> set (map rt_token (refreshTokens w))"
  shows "refreshAccessToken w env tok ua ip =
    (Inr \<lparr>access_token =
             jwt_sign env (AccessPayload (user_email u) (user_id u) (user_role u)) ''1d'',
           refresh_token = jwt_sign env (RefreshPayload (user_id u)) ''7d''\<rparr>,
     (refreshToken_update w (rt_id r))\<lparr>refreshTokens :=
        refreshTokens (refreshToken_update w (rt_id r)) @
        [\<lparr>rt_id = cuid (map rt_id (refreshTokens (refreshToken_update w (rt_id r)))),
          rt_token = jwt_sign env (RefreshPayload (user_id u)) ''7d'',
          rt_expiresAt = setDate_getDate_plus env (date_expiresAt env) 7, rt_isRevoked = False,
          rt_userAgent = ua, rt_ipAddress = ip, rt_createdAt = stamp_refreshTokens env,
          rt_userId = user_id u\<rparr>]\<rparr>)"
proof -
  have "jwt_sign env (RefreshPayload (user_id u)) ''7d''
          \<notin> set (map rt_token (refreshTokens (refreshToken_update w (rt_id r))))"
    using assms(6) unfolding refreshToken_update_def rt_tokens_updateMany .
  then have "refreshToken_create (refreshToken_update w (rt_id r)) env
               (jwt_sign env (RefreshPayload (user_id u)) ''7d'') (user_id u)
               (setDate_getDate_plus env (date_expiresAt env) 7) ua ip
             = Inr ((refreshToken_update w (rt_id r))\<lparr>refreshTokens :=
        refreshTokens (refreshToken_update w (rt_id r)) @
        [\<lparr>rt_id = cuid (map rt_id (refreshTokens (refreshToken_update w (rt_id r)))),
          rt_token = jwt_sign env (RefreshPayload (user_id u)) ''7d'',
          rt_expiresAt = setDate_getDate_plus env (date_expiresAt env) 7, rt_isRevoked = False,
          rt_userAgent = ua, rt_ipAddress = ip, rt_createdAt = stamp_refreshTokens env,
          rt_userId = user_id u\<rparr>]\<rparr>)"
    unfolding refreshToken_create_def by (simp only: if_False)
  with assms(1-5) show ?thesis
    unfolding refreshAccessToken_def by (simp add: Let_def)
qed

section \<open>Refresh: the order of the rejections (C2)\<close>

text \<open>
  Claim C2. \<^verbatim>\<open>refreshAccessToken\<close> fails with the unauthorized error
  ``Invalid or expired refresh token'' when the presented token does not verify; otherwise
  with ``Refresh token not found'' when no stored row holds the token string, with
  ``Refresh token has been revoked'' when the stored row is revoked (whether or not it has
  also expired), and with ``Refresh token has expired'' when the unrevoked row's
  \<^verbatim>\<open>expiresAt\<close> is before now; the checks are made in that order. In each case the
  store is left as it was: no token is issued.
\<close>

theorem refreshAccessToken_rejections:
  "(\<not> jwt_verify env tok \<longrightarrow>
      refreshAccessToken w env tok ua ip =
        (Inl (UnauthorizedException ''Invalid or expired refresh token''), w))
   \<and> (jwt_verify env tok \<and> refreshToken_findUnique w tok = None \<longrightarrow>
      refreshAccessToken w env tok ua ip =
        (Inl (UnauthorizedException ''Refresh token not found''), w))
   \<and> (jwt_verify env tok \<and> refreshToken_findUnique w tok = Some r \<and> rt_isRevoked r \<longrightarrow>
      refreshAccessToken w env tok ua ip =
        (Inl (UnauthorizedException ''Refresh token has been revoked''), w))
   \<and> (jwt_verify env tok \<and> refreshToken_findUnique w tok = Some r \<and> \<not> rt_isRevoked r
        \<and> rt_expiresAt r < date_now env \<longrightarrow>
      refreshAccessToken w env tok ua ip =
        (Inl (UnauthorizedException ''Refresh token has expired''), w))"
  by (simp add: refreshAccessToken_def)

text \<open>
  Witness for C2: one input for each of the four rejections; the revoked token is presented
  after its expiry and is still reported as revoked.
\<close>

theorem refreshAccessToken_rejections_witness:
  "refreshAccessToken world0 env_forged ''R1'' None None =
        (Inl (UnauthorizedException ''Invalid or expired refresh token''), world0)
   \<and> refreshAccessToken world0 env0 ''R0'' None None =
        (Inl (UnauthorizedException ''Refresh token not found''), world0)
   \<and> refreshAccessToken world_revoked env_late ''R1'' None None =
        (Inl (UnauthorizedException ''Refresh token has been revoked''), world_revoked)
   \<and> refreshAccessToken world0 env_late ''R1'' None None =
        (Inl (UnauthorizedException ''Refresh token has expired''), world0)"
proof -
  have a: "\<not> jwt_verify env_forged ''R1''" by (simp add: env_forged_def)
  have b: "jwt_verify env0 ''R0'' \<and> refreshToken_findUnique world0 ''R0'' = None"
    by (simp add: refreshToken_findUnique_def ex_defs)
  have c: "jwt_verify env_late ''R1''
      \<and> refreshToken_findUnique world_revoked ''R1'' = Some token1_revoked
      \<and> rt_isRevoked token1_revoked"
    by (simp add: refreshToken_findUnique_def ex_defs ex2_defs env_late_def)
  have d: "jwt_verify env_late ''R1''
      \<and> refreshToken_findUnique world0 ''R1'' = Some token1 \<and> \<not> rt_isRevoked token1
      \<and> rt_expiresAt token1 < date_now env_late"
    by (simp add: refreshToken_findUnique_def ex_defs env_late_def)
  from a b c d
    refreshAccessToken_rejections[of env_forged "''R1''" world0 None None token1]
    refreshAccessToken_rejections[of env0 "''R0''" world0 None None token1]
    refreshAccessToken_rejections[of env_late "''R1''" world_revoked None None token1_revoked]
    refreshAccessToken_rejections[of env_late "''R1''" world0 None None token1]
  show ?thesis by simp
qed

section \<open>Refresh: rotation (C1)\<close>

text \<open>
  Claim C1, as amended. Let R1 be a refresh token that passes the JWT verification and whose
  stored row is present, not revoked and not expired, its owning user being in the store;
  let the freshly signed refresh token R2 be a string that no stored row holds. Then
  \<^verbatim>\<open>refreshAccessToken(R1)\<close> returns a new access token and the new refresh token R2
  (different from R1), marks the row of R1 revoked, and persists R2 unrevoked with the
  expiry that \<^verbatim>\<open>setDate(getDate() + 7)\<close> gives: seven calendar days, in the server's
  local time, after the instant read for it. Every later \<^verbatim>\<open>refreshAccessToken(R1)\<close> fails
  and leaves the store as it is, while a later \<^verbatim>\<open>refreshAccessToken(R2)\<close> succeeds under
  the same conditions: R2 verifies, the clock is not past that stored expiry, and the token
  signed then is again a new string.
\<close>

theorem refreshAccessToken_rotation:
  assumes "jwt_verify env R1"
    and "refreshToken_findUnique w R1 = Some r"
    and "\<not> rt_isRevoked r" and "\<not> rt_expiresAt r < date_now env"
    and "user_findUnique_id w (rt_userId r) = Some u"
    and "R2 = jwt_sign env (RefreshPayload (user_id u)) ''7d''"
    and "R2 \<notin> set (map rt_token (refreshTokens w))"
    and "w' = snd (refreshAccessToken w env R1 ua ip)"
  shows "fst (refreshAccessToken w env R1 ua ip) =
           Inr \<lparr>access_token =
                  jwt_sign env (AccessPayload (user_email u) (user_id u) (user_role u)) ''1d'',
                refresh_token = R2\<rparr>
     \<and> R2 \<noteq> R1
     \<and> refreshToken_findUnique w' R1 = Some (r\<lparr>rt_isRevoked := True\<rparr>)
     \<and> (\<exists>r2. refreshToken_findUnique w' R2 = Some r2
            \<and> rt_expiresAt r2 = setDate_getDate_plus env (date_expiresAt env) 7 \<and> \<not> rt_isRevoked r2
            \<and> rt_userId r2 = rt_userId r \<and> rt_userAgent r2 = ua \<and> rt_ipAddress r2 = ip)
     \<and> (\<exists>e. refreshAccessToken w' env2 R1 ua2 ip2 = (Inl e, w'))
     \<and> (jwt_verify env3 R2 \<and> date_now env3 \<le> setDate_getDate_plus env (date_expiresAt env) 7
          \<and> jwt_sign env3 (RefreshPayload (user_id u)) ''7d''
                \<notin> set (map rt_token (refreshTokens w'))
        \<longrightarrow> fst (refreshAccessToken w' env3 R2 ua3 ip3) =
              Inr \<lparr>access_token =
                     jwt_sign env3 (AccessPayload (user_email u) (user_id u) (user_role u)) ''1d'',
                   refresh_token = jwt_sign env3 (RefreshPayload (user_id u)) ''7d''\<rparr>)"
proof -
  define w1 where "w1 = refreshToken_update w (rt_id r)"
  define row where "row =
    \<lparr>rt_id = cuid (map rt_id (refreshTokens w1)), rt_token = R2,
     rt_expiresAt = setDate_getDate_plus env (date_expiresAt env) 7, rt_isRevoked = False,
     rt_userAgent = ua, rt_ipAddress = ip, rt_createdAt = stamp_refreshTokens env,
     rt_userId = user_id u\<rparr>"
  have uid: "user_id u = rt_userId r"
    using assms(5) by (rule user_find_id_self)
  have le: "date_now env \<le> rt_expiresAt r"
    using assms(4) by simp
  have run: "refreshAccessToken w env R1 ua ip =
    (Inr \<lparr>access_token =
             jwt_sign env (AccessPayload (user_email u) (user_id u) (user_role u)) ''1d'',
           refresh_token = R2\<rparr>,
     w1\<lparr>refreshTokens := refreshTokens w1 @ [row]\<rparr>)"
    using refresh_success[OF assms(1) assms(2) assms(3) le assms(5), of ua ip] assms(6,7)
    unfolding w1_def row_def by simp
  have w': "w' = w1\<lparr>refreshTokens := refreshTokens w1 @ [row]\<rparr>"
    using run assms(8) by simp
  have rts: "refreshTokens w' = refreshTokens w1 @ [row]"
    unfolding w' by simp
  have usr: "users w' = users w"
    unfolding w' w1_def refreshToken_update_def by (simp add: rt_users_updateMany)
  have c1: "fst (refreshAccessToken w env R1 ua ip) =
           Inr \<lparr>access_token =
                  jwt_sign env (AccessPayload (user_email u) (user_id u) (user_role u)) ''1d'',
                refresh_token = R2\<rparr>"
    using run by simp
  have "R1 \<in> set (map rt_token (refreshTokens w))"
    using assms(2) rt_find_None_iff[of w R1] by auto
  with assms(7) have c2: "R2 \<noteq> R1" by blast
  have f1: "refreshToken_findUnique w1 R1 = Some (r\<lparr>rt_isRevoked := True\<rparr>)"
    unfolding w1_def using assms(2) by (rule rt_find_update_self)
  have c3: "refreshToken_findUnique w' R1 = Some (r\<lparr>rt_isRevoked := True\<rparr>)"
    using rt_find_create[OF rts, of R1] f1 by simp
  have "R2 \<notin> set (map rt_token (refreshTokens w1))"
    using assms(7) unfolding w1_def refreshToken_update_def rt_tokens_updateMany .
  then have "refreshToken_findUnique w1 R2 = None"
    using rt_find_None_iff[of w1 R2] by simp
  then have f2: "refreshToken_findUnique w' R2 = Some row"
    using rt_find_create[OF rts, of R2] by (simp add: row_def)
  have c4: "\<exists>r2. refreshToken_findUnique w' R2 = Some r2
            \<and> rt_expiresAt r2 = setDate_getDate_plus env (date_expiresAt env) 7 \<and> \<not> rt_isRevoked r2
            \<and> rt_userId r2 = rt_userId r \<and> rt_userAgent r2 = ua \<and> rt_ipAddress r2 = ip"
    using f2 uid by (simp add: row_def)
  have c5: "\<exists>e. refreshAccessToken w' env2 R1 ua2 ip2 = (Inl e, w')"
    using refresh_revoked_fails[OF c3, of env2 ua2 ip2] by simp
  have c6: "fst (refreshAccessToken w' env3 R2 ua3 ip3) =
              Inr \<lparr>access_token =
                     jwt_sign env3 (AccessPayload (user_email u) (user_id u) (user_role u)) ''1d'',
                   refresh_token = jwt_sign env3 (RefreshPayload (user_id u)) ''7d''\<rparr>"
    if h: "jwt_verify env3 R2" "date_now env3 \<le> setDate_getDate_plus env (date_expiresAt env) 7"
      "jwt_sign env3 (RefreshPayload (user_id u)) ''7d'' \<notin> set (map rt_token (refreshTokens w'))"
  proof -
    have a3: "\<not> rt_isRevoked row" by (simp add: row_def)
    have a4: "date_now env3 \<le> rt_expiresAt row"
      using h(2) by (simp add: row_def)
    have a5: "user_findUnique_id w' (rt_userId row) = Some u"
      using assms(5) uid usr by (simp add: row_def user_findUnique_id_def)
    show ?thesis
      using refresh_success[OF h(1) f2 a3 a4 a5 h(3), of ua3 ip3] by simp
  qed
  from c1 c2 c3 c4 c5 c6 show ?thesis by blast
qed

text \<open>
  Witness for C1: Ann's token R1 is rotated into R2 at time 500, R2 expiring seven calendar
  days after 502 (here 7 * 86400000 - 3600000 ms later); afterwards R1 is refused and R2 is
  rotated into R3 at time 600.
\<close>

theorem refreshAccessToken_rotation_witness:
  "fst (refreshAccessToken world0 env0 ''R1'' None None)
      = Inr \<lparr>access_token = ''A2'', refresh_token = ''R2''\<rparr>
   \<and> map rt_expiresAt (refreshTokens (snd (refreshAccessToken world0 env0 ''R1'' None None)))
      = [1000, 601200502]
   \<and> setDate_getDate_plus env0 (date_expiresAt env0) 7 = 601200502
   \<and> (\<exists>e. refreshAccessToken (snd (refreshAccessToken world0 env0 ''R1'' None None)) env1
              ''R1'' None None
            = (Inl e, snd (refreshAccessToken world0 env0 ''R1'' None None)))
   \<and> fst (refreshAccessToken (snd (refreshAccessToken world0 env0 ''R1'' None None)) env1
            ''R2'' None None)
      = Inr \<lparr>access_token = ''A3'', refresh_token = ''R3''\<rparr>"
proof -
  have h1: "jwt_verify env0 ''R1''" by (simp add: env0_def)
  have h2: "refreshToken_findUnique world0 ''R1'' = Some token1"
    by (simp add: refreshToken_findUnique_def world0_def token1_def)
  have h3: "\<not> rt_isRevoked token1" by (simp add: token1_def)
  have h4: "\<not> rt_expiresAt token1 < date_now env0" by (simp add: token1_def env0_def)
  have h5: "user_findUnique_id world0 (rt_userId token1) = Some alice"
    by (simp add: user_findUnique_id_def world0_def token1_def alice_def)
  have h6: "''R2'' = jwt_sign env0 (RefreshPayload (user_id alice)) ''7d''"
    by (simp add: env0_def)
  have h7: "''R2'' \<notin> set (map rt_token (refreshTokens world0))"
    by (simp add: world0_def token1_def)
  have w': "snd (refreshAccessToken world0 env0 ''R1'' None None) =
     \<lparr>users = [alice], otps = [],
      refreshTokens = [token1\<lparr>rt_isRevoked := True\<rparr>,
        \<lparr>rt_id = 2, rt_token = ''R2'', rt_expiresAt = 601200502, rt_isRevoked = False,
         rt_userAgent = None, rt_ipAddress = None, rt_createdAt = 505, rt_userId = 1\<rparr>],
      outbox = []\<rparr>"
    by (simp add: rt_defs ex_defs)
  have h8: "jwt_verify env1 ''R2'' \<and> date_now env1 \<le> setDate_getDate_plus env0 (date_expiresAt env0) 7
     \<and> jwt_sign env1 (RefreshPayload (user_id alice)) ''7d''
          \<notin> set (map rt_token (refreshTokens (snd (refreshAccessToken world0 env0 ''R1'' None None))))"
    unfolding w' by (simp add: ex_defs)
  from refreshAccessToken_rotation[OF h1 h2 h3 h4 h5 h6 h7 refl,
      of None None env1 None None env1 None None] h8
  show ?thesis unfolding w' by (simp add: ex_defs)
qed

text \<open>
  Counterexample to C1 as stated: the row of R1 is present, not revoked and not expired, but
  the JWT service rejects the string (a changed secret, or an \<^verbatim>\<open>exp\<close> claim that has
  passed), and the call is refused before the store is read.
\<close>

theorem refreshAccessToken_rotation_counterexample:
  "refreshToken_findUnique world0 ''R1'' = Some token1 \<and> \<not> rt_isRevoked token1
   \<and> \<not> rt_expiresAt token1 < date_now env_forged
   \<and> refreshAccessToken world0 env_forged ''R1'' None None =
        (Inl (UnauthorizedException ''Invalid or expired refresh token''), world0)"
  by (simp add: rt_defs ex_defs env_forged_def)

text \<open>
  Why C1 needs the signed string to be new: when the JWT service signs the same payload to
  the same string again (same user, same second), the row of R1 is revoked first and the
  insertion of the new row then fails on the unique index.
\<close>

lemma refreshAccessToken_same_string:
  "refreshAccessToken world0 env_same ''R1'' None None =
     (Inl (PrismaClientKnownRequestError ''P2002''), world_revoked)"
  by (simp add: rt_defs ex_defs env_same_def token1_revoked_def world_revoked_def)

section \<open>Logout from all devices (C8)\<close>

lemma revokeAll_snd:
  "snd (revokeAllUserRefreshTokens w userId) =
     refreshToken_updateMany w (\<lambda>r. rt_userId r = userId \<and> \<not> rt_isRevoked r)"
  by (simp add: revokeAllUserRefreshTokens_def)

lemma revokeAll_all_revoked:
  assumes "r \<in> set (refreshTokens (snd (revokeAllUserRefreshTokens w userId)))"
    and "rt_userId r = userId"
  shows "rt_isRevoked r"
proof -
  let ?P = "\<lambda>r. rt_userId r = userId \<and> \<not> rt_isRevoked r"
  from assms(1) obtain x where x: "x \<in> set (refreshTokens w)"
    and r: "r = (if ?P x then x\<lparr>rt_isRevoked := True\<rparr> else x)"
    unfolding revokeAllUserRefreshTokens_def refreshToken_updateMany_def by force
  show ?thesis
  proof (cases "?P x")
    case True
    with r show ?thesis by simp
  next
    case False
    with r have "r = x" by simp
    with False assms(2) show ?thesis by simp
  qed
qed

lemma revokeAll_find:
  assumes "refreshToken_findUnique w tok = Some r" "rt_userId r = userId"
  shows "refreshToken_findUnique (snd (revokeAllUserRefreshTokens w userId)) tok
           = Some (r\<lparr>rt_isRevoked := True\<rparr>)"
  using assms by (simp add: revokeAll_snd rt_find_updateMany)

text \<open>
  Claim C8. \<^verbatim>\<open>revokeAllUserRefreshTokens(userId)\<close> succeeds and leaves every refresh
  token of that user revoked; a token whose stored row belonged to the user before the call
  is refused by \<^verbatim>\<open>refreshAccessToken\<close> afterwards, whatever the clock and the JWT service
  say, and nothing is issued; running the operation a second time gives the same result and
  the same store as running it once.
\<close>

theorem revokeAllUserRefreshTokens_revokes:
  "fst (revokeAllUserRefreshTokens w userId) = Inr ''All refresh tokens revoked successfully''
   \<and> (\<forall>r \<in> set (refreshTokens (snd (revokeAllUserRefreshTokens w userId))).
        rt_userId r = userId \<longrightarrow> rt_isRevoked r)
   \<and> (refreshToken_findUnique w tok = Some r \<and> rt_userId r = userId \<longrightarrow>
        (\<exists>e. refreshAccessToken (snd (revokeAllUserRefreshTokens w userId)) env tok ua ip
               = (Inl e, snd (revokeAllUserRefreshTokens w userId))))
   \<and> revokeAllUserRefreshTokens (snd (revokeAllUserRefreshTokens w userId)) userId
       = revokeAllUserRefreshTokens w userId"
proof -
  have c0: "fst (revokeAllUserRefreshTokens w userId)
              = Inr ''All refresh tokens revoked successfully''"
    by (simp add: revokeAllUserRefreshTokens_def)
  have c1: "\<forall>r \<in> set (refreshTokens (snd (revokeAllUserRefreshTokens w userId))).
        rt_userId r = userId \<longrightarrow> rt_isRevoked r"
    using revokeAll_all_revoked by blast
  have c2: "\<exists>e. refreshAccessToken (snd (revokeAllUserRefreshTokens w userId)) env tok ua ip
               = (Inl e, snd (revokeAllUserRefreshTokens w userId))"
    if "refreshToken_findUnique w tok = Some r" "rt_userId r = userId"
    using refresh_revoked_fails[OF revokeAll_find[OF that], of env ua ip] by simp
  have c3: "revokeAllUserRefreshTokens (snd (revokeAllUserRefreshTokens w userId)) userId
       = revokeAllUserRefreshTokens w userId"
    unfolding revokeAll_snd
    by (simp add: revokeAllUserRefreshTokens_def updateMany_idem)
  from c0 c1 c2 c3 show ?thesis by blast
qed

text \<open>Witness for C8: Ann's only token R1 is revoked and can no longer refresh.\<close>

theorem revokeAllUserRefreshTokens_revokes_witness:
  "refreshToken_findUnique world0 ''R1'' = Some token1 \<and> rt_userId token1 = 1
   \<and> token1_revoked \<in> set (refreshTokens (snd (revokeAllUserRefreshTokens world0 1)))
   \<and> rt_userId token1_revoked = 1 \<and> rt_isRevoked token1_revoked
   \<and> (\<exists>e. refreshAccessToken (snd (revokeAllUserRefreshTokens world0 1)) env0 ''R1'' None None
               = (Inl e, snd (revokeAllUserRefreshTokens world0 1)))"
proof -
  have a: "refreshToken_findUnique world0 ''R1'' = Some token1 \<and> rt_userId token1 = 1"
    by (simp add: refreshToken_findUnique_def ex_defs)
  have b: "token1_revoked \<in> set (refreshTokens (snd (revokeAllUserRefreshTokens world0 1)))
     \<and> rt_userId token1_revoked = 1"
    by (simp add: revokeAllUserRefreshTokens_def refreshToken_updateMany_def ex_defs ex2_defs)
  from a b revokeAllUserRefreshTokens_revokes[of world0 1 "''R1''" token1 env0 None None]
  show ?thesis by blast
qed

section \<open>Logout (C10)\<close>

lemma revoke_found:
  assumes "refreshToken_findUnique w tok = Some r"
  shows "revokeRefreshToken w tok =
           (Inr ''Refresh token revoked successfully'', refreshToken_update w (rt_id r))"
  using assms by (simp add: revokeRefreshToken_def)

lemma revoke_idem: "revokeRefreshToken (snd (revokeRefreshToken w tok)) tok = revokeRefreshToken w tok"
proof (cases "refreshToken_findUnique w tok")
  case None
  then show ?thesis by (simp add: revokeRefreshToken_def)
next
  case (Some r)
  have 1: "revokeRefreshToken w tok =
             (Inr ''Refresh token revoked successfully'', refreshToken_update w (rt_id r))"
    using Some by (rule revoke_found)
  have 2: "refreshToken_findUnique (refreshToken_update w (rt_id r)) tok
             = Some (r\<lparr>rt_isRevoked := True\<rparr>)"
    using Some by (rule rt_find_update_self)
  have 3: "revokeRefreshToken (refreshToken_update w (rt_id r)) tok =
             (Inr ''Refresh token revoked successfully'',
              refreshToken_update (refreshToken_update w (rt_id r)) (rt_id r))"
    using revoke_found[OF 2] by simp
  show ?thesis
    unfolding 1 using 3 by (simp add: refreshToken_update_def updateMany_idem)
qed

text \<open>
  Claim C10. \<^verbatim>\<open>revokeRefreshToken\<close> on a token whose row exists but is already revoked
  returns the success message and the row stays as it is, revoked; the operation fails
  only when no stored row holds the token string, and then with the not-found error; a second
  logout with the same token gives the same result and the same store as the first.
\<close>

theorem revokeRefreshToken_idempotent:
  "(refreshToken_findUnique w tok = Some r \<and> rt_isRevoked r \<longrightarrow>
      fst (revokeRefreshToken w tok) = Inr ''Refresh token revoked successfully''
      \<and> refreshToken_findUnique (snd (revokeRefreshToken w tok)) tok = Some r)
   \<and> (fst (revokeRefreshToken w tok) = Inl (NotFoundException ''Refresh token not found'')
        \<longleftrightarrow> refreshToken_findUnique w tok = None)
   \<and> (\<forall>e. fst (revokeRefreshToken w tok) = Inl e \<longrightarrow> refreshToken_findUnique w tok = None)
   \<and> revokeRefreshToken (snd (revokeRefreshToken w tok)) tok = revokeRefreshToken w tok"
proof -
  have c1: "fst (revokeRefreshToken w tok) = Inr ''Refresh token revoked successfully''
      \<and> refreshToken_findUnique (snd (revokeRefreshToken w tok)) tok = Some r"
    if h: "refreshToken_findUnique w tok = Some r" "rt_isRevoked r"
  proof -
    have "r\<lparr>rt_isRevoked := True\<rparr> = r" using h(2) by simp
    then show ?thesis
      using revoke_found[OF h(1)] rt_find_update_self[OF h(1)] by simp
  qed
  have c2: "fst (revokeRefreshToken w tok) = Inl (NotFoundException ''Refresh token not found'')
        \<longleftrightarrow> refreshToken_findUnique w tok = None"
    by (cases "refreshToken_findUnique w tok") (simp_all add: revokeRefreshToken_def)
  have c3: "\<forall>e. fst (revokeRefreshToken w tok) = Inl e \<longrightarrow> refreshToken_findUnique w tok = None"
    by (cases "refreshToken_findUnique w tok") (simp_all add: revokeRefreshToken_def)
  from c1 c2 c3 revoke_idem show ?thesis by blast
qed

text \<open>
  Witness for C10: logging out with the already revoked R1 succeeds and changes nothing;
  the unknown string R0 is not found.
\<close>

theorem revokeRefreshToken_idempotent_witness:
  "refreshToken_findUnique world_revoked ''R1'' = Some token1_revoked
   \<and> rt_isRevoked token1_revoked
   \<and> revokeRefreshToken world_revoked ''R1''
       = (Inr ''Refresh token revoked successfully'', world_revoked)
   \<and> refreshToken_findUnique world_revoked ''R0'' = None
   \<and> fst (revokeRefreshToken world_revoked ''R0'')
       = Inl (NotFoundException ''Refresh token not found'')"
proof -
  have a: "refreshToken_findUnique world_revoked ''R1'' = Some token1_revoked
     \<and> rt_isRevoked token1_revoked"
    by (simp add: refreshToken_findUnique_def ex_defs ex2_defs)
  have b: "refreshToken_findUnique world_revoked ''R0'' = None"
    by (simp add: refreshToken_findUnique_def ex_defs ex2_defs)
  have c: "snd (revokeRefreshToken world_revoked ''R1'') = world_revoked"
    by (simp add: revokeRefreshToken_def rt_defs ex_defs ex2_defs)
  from a b c revokeRefreshToken_idempotent[of world_revoked "''R1''" token1_revoked]
    revokeRefreshToken_idempotent[of world_revoked "''R0''" token1_revoked]
  show ?thesis by (metis prod.collapse)
qed

section \<open>OTP codes: six decimal digits\<close>

lemma digit_mem: "m < 10 \<Longrightarrow> ''0123456789'' ! m \<in> set ''0123456789''"
  by (rule nth_mem) simp

lemma nat_toString_digits: "set (nat_toString n) \<subseteq> set ''0123456789''"
proof (induction n rule: nat_toString.induct)
  case (1 n)
  show ?case
  proof (cases "n < 10")
    case True
    then show ?thesis using digit_mem[of n] by (subst nat_toString.simps) simp
  next
    case False
    have "n mod 10 < 10" by simp
    then have "''0123456789'' ! (n mod 10) \<in> set ''0123456789''" by (rule digit_mem)
    with False 1 show ?thesis by (subst nat_toString.simps) simp
  qed
qed

lemma nat_toString_length:
  "10 ^ k \<le> n \<Longrightarrow> n < 10 ^ Suc k \<Longrightarrow> length (nat_toString n) = Suc k"
proof (induction k arbitrary: n)
  case 0
  then have "n < 10" by simp
  then show ?case by (subst nat_toString.simps) simp
next
  case (Suc k)
  have "(1::nat) \<le> 10 ^ k" by simp
  then have "(10::nat) \<le> 10 ^ Suc k" by simp
  with Suc.prems(1) have ge: "\<not> n < 10" by linarith
  have lo: "10 ^ k \<le> n div 10" using Suc.prems(1) by simp
  have hi: "n div 10 < 10 ^ Suc k" using Suc.prems(2) by (simp add: less_mult_imp_div_less)
  from Suc.IH[OF lo hi] ge show ?case by (subst nat_toString.simps) simp
qed

lemma newOtpCode_six_digits:
  assumes "0 \<le> math_random env" "math_random env < 1"
  shows "length (newOtpCode env) = 6 \<and> set (newOtpCode env) \<subseteq> set ''0123456789''"
proof -
  define v where "v = \<lfloor>100000 + math_random env * 900000\<rfloor>"
  have "(100000::real) \<le> 100000 + math_random env * 900000" using assms(1) by simp
  then have lo: "100000 \<le> v" unfolding v_def by (subst le_floor_iff) simp
  have "100000 + math_random env * 900000 < (1000000::real)" using assms(2) by simp
  then have hi: "v < 1000000" unfolding v_def by (subst floor_less_iff) simp
  have "\<not> v < 0" using lo by simp
  then have code: "newOtpCode env = nat_toString (nat v)"
    unfolding newOtpCode_def Number_toString_def v_def[symmetric] by simp
  have "10 ^ 5 \<le> nat v" "nat v < 10 ^ Suc 5" using lo hi by simp_all
  then have "length (nat_toString (nat v)) = Suc 5" by (rule nat_toString_length)
  then show ?thesis unfolding code using nat_toString_digits by simp
qed

lemma newOtpCode_env0: "newOtpCode env0 = ''550000''"
  by (simp add: newOtpCode_def Number_toString_def env0_def nat_toString.simps)

section \<open>OTP rows and users: lookups and updates\<close>

lemma otp_findFirst_None: "otp_findFirst w P = None \<longleftrightarrow> (\<forall>x \<in> set (otps w). \<not> P x)"
  by (simp add: otp_findFirst_def find_None_notin)

lemma otp_findFirst_Some: "otp_findFirst w P = Some x \<Longrightarrow> x \<in> set (otps w) \<and> P x"
  unfolding otp_findFirst_def using find_Some_prop find_Some_mem by fast

lemma otp_findFirst_ex: "(\<exists>x. otp_findFirst w P = Some x) \<longleftrightarrow> (\<exists>x \<in> set (otps w). P x)"
  using otp_findFirst_None[of w P] by (cases "otp_findFirst w P") auto

lemma user_find_email_update:
  assumes "\<And>u. user_email (f u) = user_email u"
  shows "user_findUnique_email (user_update w env i f) e =
     map_option (\<lambda>u. if user_id u = i then (f u)\<lparr>user_updatedAt := stamp_users env\<rparr> else u)
       (user_findUnique_email w e)"
  unfolding user_findUnique_email_def user_update_def
  using assms by (simp add: find_map_preserve)

lemma user_find_email_otp_update [simp]:
  "user_findUnique_email (otp_update w i) e = user_findUnique_email w e"
  by (simp add: user_findUnique_email_def otp_update_def otp_updateMany_def)

lemma otps_user_update [simp]: "otps (user_update w env i f) = otps w"
  by (simp add: user_update_def)

lemma otps_otp_update:
  "otps (otp_update w i) =
     map (\<lambda>x. if otp_id x = i then x\<lparr>otp_isUsed := True\<rparr> else x) (otps w)"
  by (simp add: otp_update_def otp_updateMany_def)

lemma refreshTokens_otp_user_update [simp]:
  "refreshTokens (user_update w env i f) = refreshTokens w"
  "refreshTokens (otp_update w j) = refreshTokens w"
  "users (otp_update w j) = users w"
  by (simp_all add: user_update_def otp_update_def otp_updateMany_def)

lemma user_find_email_None:
  "user_findUnique_email w e = None \<longleftrightarrow> e \<notin> set (map user_email (users w))"
  unfolding user_findUnique_email_def find_None_notin by (simp add: image_iff) blast

lemma user_find_email_mem: "user_findUnique_email w e = Some u \<Longrightarrow> u \<in> set (users w)"
  unfolding user_findUnique_email_def by (rule find_Some_mem)

lemma user_after_update:
  assumes "user_findUnique_email w email = Some user" "\<And>u. user_email (f u) = user_email u"
    "\<And>u. user_id (f u) = user_id u"
  shows "\<exists>user'. user_findUnique_email (user_update (otp_update w i) env (user_id user) f) email
            = Some user' \<and> user_id user' = user_id user
            \<and> user' = (f user)\<lparr>user_updatedAt := stamp_users env\<rparr>"
  using assms by (simp add: user_find_email_update)

lemma snd_case_result:
  "snd (case p of (Inl e, w3) \<Rightarrow> (Inl e, w3) | (Inr u, w3) \<Rightarrow> (Inr m, w3)) = snd p"
  by (simp split: prod.split sum.split)

lemma mail_keeps_tables:
  "otps (snd (sendVerificationOtp w env a c)) = otps w"
  "otps (snd (sendPasswordResetOtp w env a c)) = otps w"
  "otps (snd (sendOtpEmail w env a c)) = otps w"
  "users (snd (sendVerificationOtp w env a c)) = users w"
  "users (snd (sendPasswordResetOtp w env a c)) = users w"
  "users (snd (sendOtpEmail w env a c)) = users w"
  by (simp_all add: sendVerificationOtp_def sendPasswordResetOtp_def sendOtpEmail_def Let_def)

lemma login_run:
  "login w env user ua ip =
     (if jwt_sign env (RefreshPayload (user_id user)) ''7d'' \<in> set (map rt_token (refreshTokens w))
      then (Inl (PrismaClientKnownRequestError ''P2002''), w)
      else (Inr \<lparr>lr_access_token =
                   jwt_sign env (AccessPayload (user_email user) (user_id user) (user_role user)) ''1d'',
                 lr_refresh_token = jwt_sign env (RefreshPayload (user_id user)) ''7d'',
                 lr_user = \<lparr>lu_id = user_id user, lu_email = user_email user,
                            lu_firstName = user_firstName user,
                            lu_lastName = user_lastName user, lu_role = user_role user,
                            lu_isEmailVerified = user_isEmailVerified user\<rparr>\<rparr>,
            w\<lparr>refreshTokens := refreshTokens w @
               [\<lparr>rt_id = cuid (map rt_id (refreshTokens w)),
                 rt_token = jwt_sign env (RefreshPayload (user_id user)) ''7d'',
                 rt_expiresAt = setDate_getDate_plus env (date_expiresAt env) 7, rt_isRevoked = False,
                 rt_userAgent = ua, rt_ipAddress = ip, rt_createdAt = stamp_refreshTokens env,
                 rt_userId = user_id user\<rparr>]\<rparr>))"
  by (simp add: login_def refreshToken_create_def Let_def)

lemma login_otps: "otps (snd (login w env user ua ip)) = otps w"
  by (simp add: login_run)

lemma login_users: "users (snd (login w env user ua ip)) = users w"
  by (simp add: login_run)

section \<open>Validation: what each path matches\<close>

lemma verifyEmail_run:
  assumes "user_findUnique_email w email = Some user" "\<not> user_isEmailVerified user"
  shows "verifyEmail w env email code =
     (case otp_findFirst w (\<lambda>otp. otp_userId otp = user_id user \<and> otp_code otp = code
                     \<and> otp_type otp = VERIFICATION \<and> \<not> otp_isUsed otp
                     \<and> otp_expiresAt otp > date_now env) of
        None \<Rightarrow> (Inl (BadRequestException ''Invalid or expired verification code''), w)
      | Some otp \<Rightarrow> (Inr ''Email verified successfully'',
          user_update (otp_update w (otp_id otp)) env (user_id user)
            (\<lambda>u. u\<lparr>user_isEmailVerified := True\<rparr>)))"
  using assms by (simp add: verifyEmail_def Let_def split: option.split)

lemma resetPassword_run:
  assumes "user_findUnique_email w email = Some user"
  shows "resetPassword w env email code newPassword =
     (case otp_findFirst w (\<lambda>otp. otp_userId otp = user_id user \<and> otp_code otp = code
                     \<and> otp_type otp = PASSWORD_RESET \<and> \<not> otp_isUsed otp
                     \<and> otp_expiresAt otp > date_now env) of
        None \<Rightarrow> (Inl (BadRequestException ''Invalid or expired reset code''), w)
      | Some otp \<Rightarrow> (Inr ''Password reset successfully'',
          user_update (otp_update w (otp_id otp)) env (user_id user)
            (\<lambda>u. u\<lparr>user_password := bcrypt_hash env newPassword 10\<rparr>)))"
  using assms by (simp add: resetPassword_def Let_def split: option.split)

lemma verifyOtp_run:
  assumes "user_findUnique_email w email = Some user"
  shows "verifyOtp w env email code ua ip =
     (case otp_findFirst w (\<lambda>otp. otp_userId otp = user_id user \<and> otp_code otp = code
                     \<and> \<not> otp_isUsed otp \<and> otp_expiresAt otp > date_now env) of
        None \<Rightarrow> (Inl (BadRequestException ''Invalid or expired OTP''), w)
      | Some otp \<Rightarrow> login
          (user_update (otp_update w (otp_id otp)) env (user_id user)
            (\<lambda>u. u\<lparr>user_lastLoginAt := Some (date_lastLoginAt env)\<rparr>)) env user ua ip)"
  using assms by (simp add: verifyOtp_def Let_def split: option.split)

lemma verifyOtp_invalid_iff:
  assumes "user_findUnique_email w email = Some user"
  shows "fst (verifyOtp w env email code ua ip) = Inl (BadRequestException ''Invalid or expired OTP'')
     \<longleftrightarrow> \<not> (\<exists>otp \<in> set (otps w). otp_userId otp = user_id user \<and> otp_code otp = code
            \<and> \<not> otp_isUsed otp \<and> otp_expiresAt otp > date_now env)"
proof (cases "otp_findFirst w (\<lambda>otp. otp_userId otp = user_id user \<and> otp_code otp = code
                     \<and> \<not> otp_isUsed otp \<and> otp_expiresAt otp > date_now env)")
  case None
  then show ?thesis
    using otp_findFirst_None[THEN iffD1, OF None] by (simp add: verifyOtp_run[OF assms])
next
  case (Some found)
  from otp_findFirst_Some[OF Some] have "\<exists>otp \<in> set (otps w). otp_userId otp = user_id user
      \<and> otp_code otp = code \<and> \<not> otp_isUsed otp \<and> otp_expiresAt otp > date_now env"
    by blast
  then show ?thesis
    using Some by (simp add: verifyOtp_run[OF assms] login_run)
qed




section \<open>The login path ignores the type (C6)\<close>




section \<open>Validation consumes the code (C3)\<close>

lemma otpMatch_preds:
  "(\<lambda>otp. otp_userId otp = uid \<and> otp_code otp = code \<and> otp_type otp = k \<and> \<not> otp_isUsed otp
           \<and> otp_expiresAt otp > t) = otpMatch uid code (Some k) t"
  "(\<lambda>otp. otp_userId otp = uid \<and> otp_code otp = code \<and> \<not> otp_isUsed otp
           \<and> otp_expiresAt otp > t) = otpMatch uid code None t"
  unfolding otpMatch_def fun_eq_iff by (simp_all, blast)

lemma otpMatch_mono: "t \<le> t' \<Longrightarrow> otpMatch uid code ty t' otp \<Longrightarrow> otpMatch uid code ty t otp"
  by (simp add: otpMatch_def)

lemma otpMatch_used: "otp_isUsed otp \<Longrightarrow> \<not> otpMatch uid code ty t otp"
  by (simp add: otpMatch_def)

lemma consumed_no_match:
  assumes f: "found \<in> set xs"
    and uniq: "\<forall>x \<in> set xs. otpMatch uid code ty t x \<longrightarrow> x = found"
    and le: "t \<le> t'"
    and y: "y \<in> set (map (\<lambda>x. if otp_id x = otp_id found then x\<lparr>otp_isUsed := True\<rparr> else x) xs)"
  shows "\<not> otpMatch uid code ty t' y"
proof
  assume my: "otpMatch uid code ty t' y"
  from y obtain x where x: "x \<in> set xs"
    and yx: "y = (if otp_id x = otp_id found then x\<lparr>otp_isUsed := True\<rparr> else x)"
    by force
  show False
  proof (cases "otp_id x = otp_id found")
    case True
    with yx have "otp_isUsed y" by simp
    with my show False by (simp add: otpMatch_used)
  next
    case False
    with yx have "y = x" by simp
    with my have "otpMatch uid code ty t x" using le otpMatch_mono by blast
    with uniq x have "x = found" by blast
    with False show False by simp
  qed
qed

lemma verifyEmail_cases:
  assumes u: "user_findUnique_email w email = Some user" and nv: "\<not> user_isEmailVerified user"
  shows "verifyEmail w env email code =
     (case otp_findFirst w (otpMatch (user_id user) code (Some VERIFICATION) (date_now env)) of
        None \<Rightarrow> (Inl (BadRequestException ''Invalid or expired verification code''), w)
      | Some otp \<Rightarrow> (Inr ''Email verified successfully'',
          user_update (otp_update w (otp_id otp)) env (user_id user)
            (\<lambda>u. u\<lparr>user_isEmailVerified := True\<rparr>)))"
  using verifyEmail_run[OF u nv, of env code] unfolding otpMatch_preds .

lemma resetPassword_cases:
  assumes u: "user_findUnique_email w email = Some user"
  shows "resetPassword w env email code newPassword =
     (case otp_findFirst w (otpMatch (user_id user) code (Some PASSWORD_RESET) (date_now env)) of
        None \<Rightarrow> (Inl (BadRequestException ''Invalid or expired reset code''), w)
      | Some otp \<Rightarrow> (Inr ''Password reset successfully'',
          user_update (otp_update w (otp_id otp)) env (user_id user)
            (\<lambda>u. u\<lparr>user_password := bcrypt_hash env newPassword 10\<rparr>)))"
  using resetPassword_run[OF u, of env code newPassword] unfolding otpMatch_preds .

lemma verifyOtp_cases:
  assumes u: "user_findUnique_email w email = Some user"
  shows "verifyOtp w env email code ua ip =
     (case otp_findFirst w (otpMatch (user_id user) code None (date_now env)) of
        None \<Rightarrow> (Inl (BadRequestException ''Invalid or expired OTP''), w)
      | Some otp \<Rightarrow> login
          (user_update (otp_update w (otp_id otp)) env (user_id user)
            (\<lambda>u. u\<lparr>user_lastLoginAt := Some (date_lastLoginAt env)\<rparr>)) env user ua ip)"
  using verifyOtp_run[OF u, of env code ua ip] unfolding otpMatch_preds .

lemma verifyEmail_result:
  assumes u: "user_findUnique_email w email = Some user" and nv: "\<not> user_isEmailVerified user"
  shows "fst (verifyEmail w env email code) =
     (if \<exists>otp \<in> set (otps w). otpMatch (user_id user) code (Some VERIFICATION) (date_now env) otp
      then Inr ''Email verified successfully''
      else Inl (BadRequestException ''Invalid or expired verification code''))"
proof (cases "otp_findFirst w (otpMatch (user_id user) code (Some VERIFICATION) (date_now env))")
  case None
  with otp_findFirst_None[THEN iffD1, OF None] show ?thesis
    by (simp add: verifyEmail_cases[OF u nv])
next
  case (Some found)
  with otp_findFirst_Some[OF Some] show ?thesis
    by (auto simp: verifyEmail_cases[OF u nv])
qed

lemma resetPassword_result:
  assumes u: "user_findUnique_email w email = Some user"
  shows "fst (resetPassword w env email code newPassword) =
     (if \<exists>otp \<in> set (otps w). otpMatch (user_id user) code (Some PASSWORD_RESET) (date_now env) otp
      then Inr ''Password reset successfully''
      else Inl (BadRequestException ''Invalid or expired reset code''))"
proof (cases "otp_findFirst w (otpMatch (user_id user) code (Some PASSWORD_RESET) (date_now env))")
  case None
  with otp_findFirst_None[THEN iffD1, OF None] show ?thesis
    by (simp add: resetPassword_cases[OF u])
next
  case (Some found)
  with otp_findFirst_Some[OF Some] show ?thesis
    by (auto simp: resetPassword_cases[OF u])
qed

lemma verifyOtp_result:
  assumes u: "user_findUnique_email w email = Some user"
  shows "fst (verifyOtp w env email code ua ip) = Inl (BadRequestException ''Invalid or expired OTP'')
     \<longleftrightarrow> \<not> (\<exists>otp \<in> set (otps w). otpMatch (user_id user) code None (date_now env) otp)"
  using verifyOtp_invalid_iff[OF u, of env code ua ip] by (simp add: otpMatch_def)

lemma verifyEmail_found:
  assumes u: "user_findUnique_email w email = Some user" and nv: "\<not> user_isEmailVerified user"
    and m: "otp \<in> set (otps w)" "otpMatch (user_id user) code (Some VERIFICATION) (date_now env) otp"
  obtains found where "found \<in> set (otps w)"
    and "otpMatch (user_id user) code (Some VERIFICATION) (date_now env) found"
    and "verifyEmail w env email code = (Inr ''Email verified successfully'',
          user_update (otp_update w (otp_id found)) env (user_id user)
            (\<lambda>u. u\<lparr>user_isEmailVerified := True\<rparr>))"
proof -
  let ?M = "otpMatch (user_id user) code (Some VERIFICATION) (date_now env)"
  from m obtain found where f: "otp_findFirst w ?M = Some found"
    using otp_findFirst_ex[of w ?M] by blast
  from otp_findFirst_Some[OF f] have "found \<in> set (otps w)" "?M found" by simp_all
  moreover have "verifyEmail w env email code = (Inr ''Email verified successfully'',
          user_update (otp_update w (otp_id found)) env (user_id user)
            (\<lambda>u. u\<lparr>user_isEmailVerified := True\<rparr>))"
    using f by (simp add: verifyEmail_cases[OF u nv])
  ultimately show thesis by (rule that)
qed

lemma resetPassword_found:
  assumes u: "user_findUnique_email w email = Some user"
    and m: "otp \<in> set (otps w)" "otpMatch (user_id user) code (Some PASSWORD_RESET) (date_now env) otp"
  obtains found where "found \<in> set (otps w)"
    and "otpMatch (user_id user) code (Some PASSWORD_RESET) (date_now env) found"
    and "resetPassword w env email code newPassword = (Inr ''Password reset successfully'',
          user_update (otp_update w (otp_id found)) env (user_id user)
            (\<lambda>u. u\<lparr>user_password := bcrypt_hash env newPassword 10\<rparr>))"
proof -
  let ?M = "otpMatch (user_id user) code (Some PASSWORD_RESET) (date_now env)"
  from m obtain found where f: "otp_findFirst w ?M = Some found"
    using otp_findFirst_ex[of w ?M] by blast
  from otp_findFirst_Some[OF f] have "found \<in> set (otps w)" "?M found" by simp_all
  moreover have "resetPassword w env email code newPassword = (Inr ''Password reset successfully'',
          user_update (otp_update w (otp_id found)) env (user_id user)
            (\<lambda>u. u\<lparr>user_password := bcrypt_hash env newPassword 10\<rparr>))"
    using f by (simp add: resetPassword_cases[OF u])
  ultimately show thesis by (rule that)
qed

lemma verifyOtp_found:
  assumes u: "user_findUnique_email w email = Some user"
    and m: "otp \<in> set (otps w)" "otpMatch (user_id user) code None (date_now env) otp"
  obtains found where "found \<in> set (otps w)"
    and "otpMatch (user_id user) code None (date_now env) found"
    and "verifyOtp w env email code ua ip =
          login (user_update (otp_update w (otp_id found)) env (user_id user)
                  (\<lambda>u. u\<lparr>user_lastLoginAt := Some (date_lastLoginAt env)\<rparr>)) env user ua ip"
proof -
  let ?M = "otpMatch (user_id user) code None (date_now env)"
  from m obtain found where f: "otp_findFirst w ?M = Some found"
    using otp_findFirst_ex[of w ?M] by blast
  from otp_findFirst_Some[OF f] have "found \<in> set (otps w)" "?M found" by simp_all
  moreover have "verifyOtp w env email code ua ip =
          login (user_update (otp_update w (otp_id found)) env (user_id user)
                  (\<lambda>u. u\<lparr>user_lastLoginAt := Some (date_lastLoginAt env)\<rparr>)) env user ua ip"
    using f by (simp add: verifyOtp_cases[OF u])
  ultimately show thesis by (rule that)
qed

lemma verifyEmail_consumes:
  assumes u: "user_findUnique_email w email = Some user" and nv: "\<not> user_isEmailVerified user"
    and m: "otp \<in> set (otps w)" "otpMatch (user_id user) code (Some VERIFICATION) (date_now env) otp"
  shows "\<exists>found \<in> set (otps w).
       otpMatch (user_id user) code (Some VERIFICATION) (date_now env) found
     \<and> ((\<forall>x \<in> set (otps w). otpMatch (user_id user) code (Some VERIFICATION) (date_now env) x
             \<longrightarrow> x = otp) \<longrightarrow> found = otp)
     \<and> otps (snd (verifyEmail w env email code)) =
         map (\<lambda>x. if otp_id x = otp_id found then x\<lparr>otp_isUsed := True\<rparr> else x) (otps w)"
proof (rule verifyEmail_found[OF u nv m])
  fix found :: Otp
  assume fp: "found \<in> set (otps w)"
      "otpMatch (user_id user) code (Some VERIFICATION) (date_now env) found"
    and run: "verifyEmail w env email code = (Inr ''Email verified successfully'',
          user_update (otp_update w (otp_id found)) env (user_id user)
            (\<lambda>u. u\<lparr>user_isEmailVerified := True\<rparr>))"
  have "otps (snd (verifyEmail w env email code)) =
         map (\<lambda>x. if otp_id x = otp_id found then x\<lparr>otp_isUsed := True\<rparr> else x) (otps w)"
    unfolding run by (simp add: otps_otp_update)
  with fp show ?thesis by (intro bexI[of _ found]) auto
qed

lemma verifyEmail_twice:
  assumes u: "user_findUnique_email w email = Some user" and nv: "\<not> user_isEmailVerified user"
    and m: "otp \<in> set (otps w)" "otpMatch (user_id user) code (Some VERIFICATION) (date_now env) otp"
  shows "verifyEmail (snd (verifyEmail w env email code)) env2 email code2 =
         (Inl (BadRequestException ''Email is already verified''),
          snd (verifyEmail w env email code))"
proof (rule verifyEmail_found[OF u nv m])
  fix found :: Otp
  assume run: "verifyEmail w env email code = (Inr ''Email verified successfully'',
          user_update (otp_update w (otp_id found)) env (user_id user)
            (\<lambda>u. u\<lparr>user_isEmailVerified := True\<rparr>))"
  let ?w' = "user_update (otp_update w (otp_id found)) env (user_id user)
            (\<lambda>u. u\<lparr>user_isEmailVerified := True\<rparr>)"
  have "user_findUnique_email ?w' email
      = Some (user\<lparr>user_isEmailVerified := True, user_updatedAt := stamp_users env\<rparr>)"
    using u by (simp add: user_find_email_update)
  then have "verifyEmail ?w' env2 email code2 =
         (Inl (BadRequestException ''Email is already verified''), ?w')"
    by (simp add: verifyEmail_def)
  then show ?thesis unfolding run by simp
qed

lemma resetPassword_consumes:
  assumes u: "user_findUnique_email w email = Some user"
    and m: "otp \<in> set (otps w)" "otpMatch (user_id user) code (Some PASSWORD_RESET) (date_now env) otp"
  shows "\<exists>found \<in> set (otps w).
       otpMatch (user_id user) code (Some PASSWORD_RESET) (date_now env) found
     \<and> ((\<forall>x \<in> set (otps w). otpMatch (user_id user) code (Some PASSWORD_RESET) (date_now env) x
             \<longrightarrow> x = otp) \<longrightarrow> found = otp)
     \<and> otps (snd (resetPassword w env email code newPassword)) =
         map (\<lambda>x. if otp_id x = otp_id found then x\<lparr>otp_isUsed := True\<rparr> else x) (otps w)"
proof (rule resetPassword_found[OF u m, where newPassword = newPassword])
  fix found :: Otp
  assume fp: "found \<in> set (otps w)"
      "otpMatch (user_id user) code (Some PASSWORD_RESET) (date_now env) found"
    and run: "resetPassword w env email code newPassword = (Inr ''Password reset successfully'',
          user_update (otp_update w (otp_id found)) env (user_id user)
            (\<lambda>u. u\<lparr>user_password := bcrypt_hash env newPassword 10\<rparr>))"
  have "otps (snd (resetPassword w env email code newPassword)) =
         map (\<lambda>x. if otp_id x = otp_id found then x\<lparr>otp_isUsed := True\<rparr> else x) (otps w)"
    unfolding run by (simp add: otps_otp_update)
  with fp show ?thesis by (intro bexI[of _ found]) auto
qed

lemma resetPassword_twice:
  assumes u: "user_findUnique_email w email = Some user"
    and m: "otp \<in> set (otps w)" "otpMatch (user_id user) code (Some PASSWORD_RESET) (date_now env) otp"
    and uq: "\<forall>x \<in> set (otps w). otpMatch (user_id user) code (Some PASSWORD_RESET) (date_now env) x
             \<longrightarrow> x = otp"
    and le: "date_now env \<le> date_now env2"
  shows "fst (resetPassword (snd (resetPassword w env email code newPassword)) env2 email code
                newPassword2)
           = Inl (BadRequestException ''Invalid or expired reset code'')"
proof (rule resetPassword_found[OF u m, where newPassword = newPassword])
  fix found :: Otp
  assume fp: "found \<in> set (otps w)"
      "otpMatch (user_id user) code (Some PASSWORD_RESET) (date_now env) found"
    and run: "resetPassword w env email code newPassword = (Inr ''Password reset successfully'',
          user_update (otp_update w (otp_id found)) env (user_id user)
            (\<lambda>u. u\<lparr>user_password := bcrypt_hash env newPassword 10\<rparr>))"
  let ?w' = "user_update (otp_update w (otp_id found)) env (user_id user)
            (\<lambda>u. u\<lparr>user_password := bcrypt_hash env newPassword 10\<rparr>)"
  have o: "otps ?w' =
         map (\<lambda>x. if otp_id x = otp_id found then x\<lparr>otp_isUsed := True\<rparr> else x) (otps w)"
    by (simp add: otps_otp_update)
  obtain user' where u': "user_findUnique_email ?w' email = Some user'"
    and id': "user_id user' = user_id user"
    using user_after_update[OF u, of "\<lambda>u. u\<lparr>user_password := bcrypt_hash env newPassword 10\<rparr>"
        "otp_id found" env] by auto
  from uq fp have fo: "found = otp" by blast
  have "\<not> otpMatch (user_id user) code (Some PASSWORD_RESET) (date_now env2) y"
    if "y \<in> set (otps ?w')" for y
    using consumed_no_match[OF m(1) uq le, of y] that[unfolded o] unfolding fo by blast
  then have "fst (resetPassword ?w' env2 email code newPassword2)
           = Inl (BadRequestException ''Invalid or expired reset code'')"
    unfolding resetPassword_result[OF u'] id' by auto
  then show ?thesis unfolding run by simp
qed

lemma verifyOtp_consumes:
  assumes u: "user_findUnique_email w email = Some user"
    and m: "otp \<in> set (otps w)" "otpMatch (user_id user) code None (date_now env) otp"
  shows "\<exists>found \<in> set (otps w).
       otpMatch (user_id user) code None (date_now env) found
     \<and> ((\<forall>x \<in> set (otps w). otpMatch (user_id user) code None (date_now env) x
             \<longrightarrow> x = otp) \<longrightarrow> found = otp)
     \<and> otps (snd (verifyOtp w env email code ua ip)) =
         map (\<lambda>x. if otp_id x = otp_id found then x\<lparr>otp_isUsed := True\<rparr> else x) (otps w)"
proof (rule verifyOtp_found[OF u m, where ua = ua and ip = ip])
  fix found :: Otp
  assume fp: "found \<in> set (otps w)"
      "otpMatch (user_id user) code None (date_now env) found"
    and run: "verifyOtp w env email code ua ip =
          login (user_update (otp_update w (otp_id found)) env (user_id user)
                  (\<lambda>u. u\<lparr>user_lastLoginAt := Some (date_lastLoginAt env)\<rparr>)) env user ua ip"
  have "otps (snd (verifyOtp w env email code ua ip)) =
         map (\<lambda>x. if otp_id x = otp_id found then x\<lparr>otp_isUsed := True\<rparr> else x) (otps w)"
    unfolding run by (simp add: login_otps otps_otp_update)
  with fp show ?thesis by (intro bexI[of _ found]) auto
qed

lemma verifyOtp_twice:
  assumes u: "user_findUnique_email w email = Some user"
    and m: "otp \<in> set (otps w)" "otpMatch (user_id user) code None (date_now env) otp"
    and uq: "\<forall>x \<in> set (otps w). otpMatch (user_id user) code None (date_now env) x
             \<longrightarrow> x = otp"
    and le: "date_now env \<le> date_now env2"
  shows "fst (verifyOtp (snd (verifyOtp w env email code ua ip)) env2 email code ua2 ip2)
           = Inl (BadRequestException ''Invalid or expired OTP'')"
proof (rule verifyOtp_found[OF u m, where ua = ua and ip = ip])
  fix found :: Otp
  assume fp: "found \<in> set (otps w)"
      "otpMatch (user_id user) code None (date_now env) found"
    and run: "verifyOtp w env email code ua ip =
          login (user_update (otp_update w (otp_id found)) env (user_id user)
                  (\<lambda>u. u\<lparr>user_lastLoginAt := Some (date_lastLoginAt env)\<rparr>)) env user ua ip"
  let ?w1 = "user_update (otp_update w (otp_id found)) env (user_id user)
            (\<lambda>u. u\<lparr>user_lastLoginAt := Some (date_lastLoginAt env)\<rparr>)"
  let ?w' = "snd (login ?w1 env user ua ip)"
  have o: "otps ?w' =
         map (\<lambda>x. if otp_id x = otp_id found then x\<lparr>otp_isUsed := True\<rparr> else x) (otps w)"
    by (simp add: login_otps otps_otp_update)
  obtain user' where u1: "user_findUnique_email ?w1 email = Some user'"
    and id': "user_id user' = user_id user"
    using user_after_update[OF u, of "\<lambda>u. u\<lparr>user_lastLoginAt := Some (date_lastLoginAt env)\<rparr>"
        "otp_id found" env] by auto
  have u': "user_findUnique_email ?w' email = Some user'"
    using u1 by (simp add: user_findUnique_email_def login_users)
  from uq fp have fo: "found = otp" by blast
  have "\<not> otpMatch (user_id user) code None (date_now env2) y"
    if "y \<in> set (otps ?w')" for y
    using consumed_no_match[OF m(1) uq le, of y] that[unfolded o] unfolding fo by blast
  then have "fst (verifyOtp ?w' env2 email code ua2 ip2)
           = Inl (BadRequestException ''Invalid or expired OTP'')"
    unfolding verifyOtp_result[OF u'] id' by auto
  then show ?thesis unfolding run by simp
qed

lemma expired_no_match:
  assumes "\<forall>x \<in> set (otps w). otp_userId x = uid \<and> otp_code x = code \<longrightarrow> otp_expiresAt x \<le> t"
  shows "\<not> (\<exists>otp \<in> set (otps w). otpMatch uid code ty t otp)"
  using assms by (auto simp: otpMatch_def)

text \<open>
  Claim C3, as amended. For a user found by email: \<^verbatim>\<open>verifyEmail\<close> (the user not yet
  verified) and \<^verbatim>\<open>resetPassword\<close> succeed if and only if some stored code matches (same
  user, same code, unused, \<^verbatim>\<open>expiresAt\<close> strictly after now, and the type VERIFICATION,
  respectively PASSWORD_RESET), and fail with their invalid-or-expired-code error otherwise;
  \<^verbatim>\<open>verifyOtp\<close> fails with ``Invalid or expired OTP'' if and only if no stored code matches
  regardless of type. When a code matches, the first matching row (the presented one when it
  is the only match) is marked used and no other row changes its flag unless it shares that
  id. Validating the same code a second time fails: \<^verbatim>\<open>verifyEmail\<close> with ``Email is
  already verified''; \<^verbatim>\<open>resetPassword\<close> and \<^verbatim>\<open>verifyOtp\<close> with their
  invalid-or-expired-code error when the consumed row was the only match and the clock has not
  gone back. A code whose \<^verbatim>\<open>expiresAt\<close> is not after now never validates, even if it is
  correct and unused.
\<close>

theorem otp_validation:
  assumes "user_findUnique_email w email = Some user"
  shows
   "(\<not> user_isEmailVerified user \<longrightarrow>
       fst (verifyEmail w env email code) =
         (if \<exists>otp \<in> set (otps w).
               otpMatch (user_id user) code (Some VERIFICATION) (date_now env) otp
          then Inr ''Email verified successfully''
          else Inl (BadRequestException ''Invalid or expired verification code'')))
    \<and> fst (resetPassword w env email code newPassword) =
         (if \<exists>otp \<in> set (otps w).
               otpMatch (user_id user) code (Some PASSWORD_RESET) (date_now env) otp
          then Inr ''Password reset successfully''
          else Inl (BadRequestException ''Invalid or expired reset code''))
    \<and> (fst (verifyOtp w env email code ua ip) = Inl (BadRequestException ''Invalid or expired OTP'')
         \<longleftrightarrow> \<not> (\<exists>otp \<in> set (otps w). otpMatch (user_id user) code None (date_now env) otp))
    \<and> (\<not> user_isEmailVerified user \<and> otp \<in> set (otps w)
         \<and> otpMatch (user_id user) code (Some VERIFICATION) (date_now env) otp \<longrightarrow>
        (\<exists>found \<in> set (otps w).
           otpMatch (user_id user) code (Some VERIFICATION) (date_now env) found
         \<and> ((\<forall>x \<in> set (otps w).
                otpMatch (user_id user) code (Some VERIFICATION) (date_now env) x \<longrightarrow> x = otp)
              \<longrightarrow> found = otp)
         \<and> otps (snd (verifyEmail w env email code)) =
             map (\<lambda>x. if otp_id x = otp_id found then x\<lparr>otp_isUsed := True\<rparr> else x) (otps w)))
    \<and> (otp \<in> set (otps w)
         \<and> otpMatch (user_id user) code (Some PASSWORD_RESET) (date_now env) otp \<longrightarrow>
        (\<exists>found \<in> set (otps w).
           otpMatch (user_id user) code (Some PASSWORD_RESET) (date_now env) found
         \<and> ((\<forall>x \<in> set (otps w).
                otpMatch (user_id user) code (Some PASSWORD_RESET) (date_now env) x \<longrightarrow> x = otp)
              \<longrightarrow> found = otp)
         \<and> otps (snd (resetPassword w env email code newPassword)) =
             map (\<lambda>x. if otp_id x = otp_id found then x\<lparr>otp_isUsed := True\<rparr> else x) (otps w)))
    \<and> (otp \<in> set (otps w) \<and> otpMatch (user_id user) code None (date_now env) otp \<longrightarrow>
        (\<exists>found \<in> set (otps w).
           otpMatch (user_id user) code None (date_now env) found
         \<and> ((\<forall>x \<in> set (otps w).
                otpMatch (user_id user) code None (date_now env) x \<longrightarrow> x = otp)
              \<longrightarrow> found = otp)
         \<and> otps (snd (verifyOtp w env email code ua ip)) =
             map (\<lambda>x. if otp_id x = otp_id found then x\<lparr>otp_isUsed := True\<rparr> else x) (otps w)))
    \<and> (\<not> user_isEmailVerified user \<and> otp \<in> set (otps w)
         \<and> otpMatch (user_id user) code (Some VERIFICATION) (date_now env) otp \<longrightarrow>
        verifyEmail (snd (verifyEmail w env email code)) env2 email code2 =
          (Inl (BadRequestException ''Email is already verified''),
           snd (verifyEmail w env email code)))
    \<and> (otp \<in> set (otps w)
         \<and> otpMatch (user_id user) code (Some PASSWORD_RESET) (date_now env) otp
         \<and> (\<forall>x \<in> set (otps w).
                otpMatch (user_id user) code (Some PASSWORD_RESET) (date_now env) x \<longrightarrow> x = otp)
         \<and> date_now env \<le> date_now env2 \<longrightarrow>
        fst (resetPassword (snd (resetPassword w env email code newPassword)) env2 email code
               newPassword2)
          = Inl (BadRequestException ''Invalid or expired reset code''))
    \<and> (otp \<in> set (otps w) \<and> otpMatch (user_id user) code None (date_now env) otp
         \<and> (\<forall>x \<in> set (otps w).
                otpMatch (user_id user) code None (date_now env) x \<longrightarrow> x = otp)
         \<and> date_now env \<le> date_now env2 \<longrightarrow>
        fst (verifyOtp (snd (verifyOtp w env email code ua ip)) env2 email code ua2 ip2)
          = Inl (BadRequestException ''Invalid or expired OTP''))
    \<and> ((\<forall>x \<in> set (otps w). otp_userId x = user_id user \<and> otp_code x = code
            \<longrightarrow> otp_expiresAt x \<le> date_now env) \<longrightarrow>
        (\<not> user_isEmailVerified user \<longrightarrow>
           fst (verifyEmail w env email code)
             = Inl (BadRequestException ''Invalid or expired verification code''))
        \<and> fst (resetPassword w env email code newPassword)
             = Inl (BadRequestException ''Invalid or expired reset code'')
        \<and> fst (verifyOtp w env email code ua ip)
             = Inl (BadRequestException ''Invalid or expired OTP''))"
proof -
  note u = assms
  have e: "(\<not> user_isEmailVerified user \<longrightarrow>
           fst (verifyEmail w env email code)
             = Inl (BadRequestException ''Invalid or expired verification code''))
        \<and> fst (resetPassword w env email code newPassword)
             = Inl (BadRequestException ''Invalid or expired reset code'')
        \<and> fst (verifyOtp w env email code ua ip)
             = Inl (BadRequestException ''Invalid or expired OTP'')"
    if x: "\<forall>x \<in> set (otps w). otp_userId x = user_id user \<and> otp_code x = code
            \<longrightarrow> otp_expiresAt x \<le> date_now env"
    using expired_no_match[OF x, of "Some VERIFICATION"]
      expired_no_match[OF x, of "Some PASSWORD_RESET"] expired_no_match[OF x, of None]
      verifyEmail_result[OF u, of env code] resetPassword_result[OF u, of env code newPassword]
      verifyOtp_result[OF u, of env code ua ip]
    by simp
  show ?thesis
    apply (intro conjI impI)
    subgoal by (rule verifyEmail_result[OF u])
    subgoal by (rule resetPassword_result[OF u])
    subgoal by (rule verifyOtp_result[OF u])
    subgoal by (elim conjE) (rule verifyEmail_consumes[OF u])
    subgoal by (elim conjE) (rule resetPassword_consumes[OF u])
    subgoal by (elim conjE) (rule verifyOtp_consumes[OF u])
    subgoal by (elim conjE) (rule verifyEmail_twice[OF u])
    subgoal by (elim conjE) (rule resetPassword_twice[OF u])
    subgoal by (elim conjE) (rule verifyOtp_twice[OF u])
    subgoal using e by blast
    subgoal using e by blast
    subgoal using e by blast
    done
qed

text \<open>
  Counterexample to C3 as stated: the second \<^verbatim>\<open>verifyEmail\<close> with the same code fails
  with ``Email is already verified'', not with the invalid-or-expired-code error.
\<close>

theorem otp_validation_counterexample:
  "fst (verifyEmail world_otp env0 ''a@x.com'' ''123456'') = Inr ''Email verified successfully''
   \<and> fst (verifyEmail (snd (verifyEmail world_otp env0 ''a@x.com'' ''123456'')) env0
            ''a@x.com'' ''123456'')
       = Inl (BadRequestException ''Email is already verified'')
   \<and> fst (verifyEmail (snd (verifyEmail world_otp env0 ''a@x.com'' ''123456'')) env0
            ''a@x.com'' ''123456'')
       \<noteq> Inl (BadRequestException ''Invalid or expired verification code'')"
  by (simp add: verifyEmail_def user_findUnique_email_def otp_findFirst_def otp_update_def
      otp_updateMany_def user_update_def Let_def ex_defs otp_ex_defs)

text \<open>
  Witness for C3: Ann verifies her email with 123456 and resets her password with 654321; each
  code is refused the second time, and 123456 is refused once it has expired.
\<close>

theorem otp_validation_witness:
  "user_findUnique_email world_otp ''a@x.com'' = Some alice \<and> \<not> user_isEmailVerified alice
   \<and> otp_v \<in> set (otps world_otp)
   \<and> otpMatch (user_id alice) ''123456'' (Some VERIFICATION) (date_now env0) otp_v
   \<and> otp_p \<in> set (otps world_otp)
   \<and> otpMatch (user_id alice) ''654321'' (Some PASSWORD_RESET) (date_now env0) otp_p
   \<and> date_now env0 \<le> date_now env1
   \<and> fst (verifyEmail world_otp env0 ''a@x.com'' ''123456'') = Inr ''Email verified successfully''
   \<and> fst (verifyEmail (snd (verifyEmail world_otp env0 ''a@x.com'' ''123456'')) env1
            ''a@x.com'' ''123456'')
        = Inl (BadRequestException ''Email is already verified'')
   \<and> fst (resetPassword world_otp env0 ''a@x.com'' ''654321'' ''Pw2@bbbb'')
        = Inr ''Password reset successfully''
   \<and> fst (resetPassword (snd (resetPassword world_otp env0 ''a@x.com'' ''654321'' ''Pw2@bbbb''))
            env1 ''a@x.com'' ''654321'' ''Pw3@cccc'')
        = Inl (BadRequestException ''Invalid or expired reset code'')
   \<and> fst (verifyOtp (snd (verifyOtp world_otp env0 ''a@x.com'' ''654321'' None None))
            env1 ''a@x.com'' ''654321'' None None)
        = Inl (BadRequestException ''Invalid or expired OTP'')
   \<and> fst (verifyEmail world_otp env_late ''a@x.com'' ''123456'')
        = Inl (BadRequestException ''Invalid or expired verification code'')"
proof -
  have u: "user_findUnique_email world_otp ''a@x.com'' = Some alice"
    by (simp add: user_findUnique_email_def ex_defs otp_ex_defs)
  have nv: "\<not> user_isEmailVerified alice" by (simp add: alice_def)
  have v: "otp_v \<in> set (otps world_otp)"
    "otpMatch (user_id alice) ''123456'' (Some VERIFICATION) (date_now env0) otp_v"
    by (simp_all add: otpMatch_def ex_defs otp_ex_defs)
  have p: "otp_p \<in> set (otps world_otp)"
    "otpMatch (user_id alice) ''654321'' (Some PASSWORD_RESET) (date_now env0) otp_p"
    "otpMatch (user_id alice) ''654321'' None (date_now env0) otp_p"
    by (simp_all add: otpMatch_def ex_defs otp_ex_defs)
  have up: "\<forall>x \<in> set (otps world_otp).
      otpMatch (user_id alice) ''654321'' (Some PASSWORD_RESET) (date_now env0) x \<longrightarrow> x = otp_p"
    "\<forall>x \<in> set (otps world_otp).
      otpMatch (user_id alice) ''654321'' None (date_now env0) x \<longrightarrow> x = otp_p"
    by (simp_all add: otpMatch_def ex_defs otp_ex_defs)
  have le: "date_now env0 \<le> date_now env1" by (simp add: ex_defs)
  have late: "\<forall>x \<in> set (otps world_otp). otp_userId x = user_id alice \<and> otp_code x = ''123456''
            \<longrightarrow> otp_expiresAt x \<le> date_now env_late"
    by (simp add: env_late_def ex_defs otp_ex_defs)
  note T1 = otp_validation[OF u, where env = env0 and code = "''123456''" and otp = otp_v
      and ?env2.0 = env1 and ?code2.0 = "''123456''" and newPassword = "''Pw2@bbbb''"
      and ?newPassword2.0 = "''Pw3@cccc''"
      and ua = None and ip = None and ?ua2.0 = None and ?ip2.0 = None]
  note T2 = otp_validation[OF u, where env = env0 and code = "''654321''" and otp = otp_p
      and ?env2.0 = env1 and ?code2.0 = "''654321''" and newPassword = "''Pw2@bbbb''" and ?newPassword2.0 = "''Pw3@cccc''"
      and ua = None and ip = None and ?ua2.0 = None and ?ip2.0 = None]
  note T3 = otp_validation[OF u, where env = env_late and code = "''123456''" and otp = otp_v
      and ?env2.0 = env1 and ?code2.0 = "''123456''" and newPassword = "''Pw2@bbbb''"
      and ?newPassword2.0 = "''Pw3@cccc''"
      and ua = None and ip = None and ?ua2.0 = None and ?ip2.0 = None]
  have exv: "\<exists>otp \<in> set (otps world_otp).
      otpMatch (user_id alice) ''123456'' (Some VERIFICATION) (date_now env0) otp"
    using v by (rule bexI[rotated])
  have exp: "\<exists>otp \<in> set (otps world_otp).
      otpMatch (user_id alice) ''654321'' (Some PASSWORD_RESET) (date_now env0) otp"
    using p(1,2) by (rule bexI[rotated])
  note c2 = conjunct2
  from T1[THEN conjunct1, rule_format, OF nv] exv
  have 1: "fst (verifyEmail world_otp env0 ''a@x.com'' ''123456'')
       = Inr ''Email verified successfully''"
    by simp
  from T1[THEN c2, THEN c2, THEN c2, THEN c2, THEN c2, THEN c2, THEN conjunct1, rule_format,
      OF conjI[OF nv conjI[OF v(1) v(2)]]]
  have 2: "fst (verifyEmail (snd (verifyEmail world_otp env0 ''a@x.com'' ''123456''))
            env1 ''a@x.com'' ''123456'')
        = Inl (BadRequestException ''Email is already verified'')"
    by simp
  from T2[THEN c2, THEN conjunct1] exp
  have 3: "fst (resetPassword world_otp env0 ''a@x.com'' ''654321'' ''Pw2@bbbb'')
        = Inr ''Password reset successfully''"
    by simp
  from T2[THEN c2, THEN c2, THEN c2, THEN c2, THEN c2, THEN c2, THEN c2, THEN conjunct1,
      rule_format, OF conjI[OF p(1) conjI[OF p(2) conjI[OF up(1) le]]]]
  have 4: "fst (resetPassword
            (snd (resetPassword world_otp env0 ''a@x.com'' ''654321'' ''Pw2@bbbb''))
            env1 ''a@x.com'' ''654321'' ''Pw3@cccc'')
        = Inl (BadRequestException ''Invalid or expired reset code'')" .
  from T2[THEN c2, THEN c2, THEN c2, THEN c2, THEN c2, THEN c2, THEN c2, THEN c2,
      THEN conjunct1, rule_format, OF conjI[OF p(1) conjI[OF p(3) conjI[OF up(2) le]]]]
  have 5: "fst (verifyOtp
            (snd (verifyOtp world_otp env0 ''a@x.com'' ''654321'' None None))
            env1 ''a@x.com'' ''654321'' None None)
        = Inl (BadRequestException ''Invalid or expired OTP'')" .
  from T3[THEN c2, THEN c2, THEN c2, THEN c2, THEN c2, THEN c2, THEN c2, THEN c2, THEN c2,
      THEN mp, OF late, THEN conjunct1, THEN mp, OF nv]
  have 6: "fst (verifyEmail world_otp env_late ''a@x.com'' ''123456'')
        = Inl (BadRequestException ''Invalid or expired verification code'')" .
  from u nv v p(1,2) le 1 2 3 4 5 6 show ?thesis by simp
qed

section \<open>Issuing a code: register and forgotPassword\<close>

lemma user_create_new:
  assumes "user_findUnique_email w (dto_email dto) = None"
  shows "\<exists>user. user_create w env dto h = Inr (user, w\<lparr>users := users w @ [user]\<rparr>)
     \<and> user_id user = cuid (map user_id (users w)) \<and> user_email user = dto_email dto
     \<and> user_password user = h \<and> \<not> user_isEmailVerified user
     \<and> user_firstName user = dto_firstName dto \<and> user_lastName user = dto_lastName dto
     \<and> user_role user = CUSTOMER \<and> user_isActive user"
  using assms[unfolded user_find_email_None] by (simp add: user_create_def Let_def)

lemma omitPassword_map_of:
  "map_of (omitPassword obj) k = (if k = ''password'' then None else map_of obj k)"
  unfolding omitPassword_def by (induction obj) auto

lemma register_run:
  assumes none: "user_findUnique_email w (dto_email dto) = None"
  shows "\<exists>user otp.
      fst (register w env dto) =
        (if sendMail env \<lparr>mail_to = dto_email dto, mail_subject = ''Verify Your Email Address'',
                         mail_otpCode = newOtpCode env\<rparr>
         then Inr \<lparr>rr_message = ''User registered successfully. Please check your email for the verification code.'',
                   rr_user = omitPassword (userObject user)\<rparr>
         else Inl (Error ''Failed to send verification email''))
    \<and> users (snd (register w env dto)) = users w @ [user]
    \<and> otps (snd (register w env dto)) = otps w @ [otp]
    \<and> outbox (snd (register w env dto)) =
        (if sendMail env \<lparr>mail_to = dto_email dto, mail_subject = ''Verify Your Email Address'',
                         mail_otpCode = newOtpCode env\<rparr>
         then outbox w @ [\<lparr>mail_to = dto_email dto, mail_subject = ''Verify Your Email Address'',
                         mail_otpCode = newOtpCode env\<rparr>]
         else outbox w)
    \<and> user_email user = dto_email dto
    \<and> user_password user = bcrypt_hash env (dto_password dto) 10
    \<and> \<not> user_isEmailVerified user
    \<and> user_firstName user = dto_firstName dto \<and> user_lastName user = dto_lastName dto
    \<and> otp_userId otp = user_id user \<and> otp_type otp = VERIFICATION \<and> \<not> otp_isUsed otp
    \<and> otp_code otp = newOtpCode env \<and> otp_expiresAt otp = date_now env + 600000"
proof -
  obtain user where c: "user_create w env dto (bcrypt_hash env (dto_password dto) 10)
        = Inr (user, w\<lparr>users := users w @ [user]\<rparr>)"
    and p: "user_email user = dto_email dto"
      "user_password user = bcrypt_hash env (dto_password dto) 10"
      "\<not> user_isEmailVerified user"
      "user_firstName user = dto_firstName dto" "user_lastName user = dto_lastName dto"
    using user_create_new[OF none] by blast
  define otp where "otp = \<lparr>otp_id = cuid (map otp_id (otps w)), otp_code = newOtpCode env,
      otp_expiresAt = date_now env + 600000, otp_isUsed = False, otp_type = VERIFICATION,
      otp_createdAt = stamp_otps env, otp_userId = user_id user\<rparr>"
  have run: "register w env dto =
     (case sendVerificationOtp (w\<lparr>users := users w @ [user], otps := otps w @ [otp]\<rparr>) env
             (dto_email dto) (newOtpCode env) of
        (Inl e, w3) \<Rightarrow> (Inl e, w3)
      | (Inr u, w3) \<Rightarrow>
          (Inr \<lparr>rr_message = ''User registered successfully. Please check your email for the verification code.'',
                rr_user = omitPassword (userObject user)\<rparr>, w3))"
    using none c p(1) by (simp add: register_def Let_def otp_create_def otp_def)
  show ?thesis
    apply (rule exI[of _ user], rule exI[of _ otp])
    unfolding run using p
    by (simp add: sendVerificationOtp_def Let_def otp_def)
qed

lemma forgotPassword_run:
  assumes u: "user_findUnique_email w email = Some user"
  shows "\<exists>otp.
      fst (forgotPassword w env email) =
        (if sendMail env \<lparr>mail_to = email, mail_subject = ''Reset Your Password'',
                         mail_otpCode = newOtpCode env\<rparr>
         then Inr ''If an account with that email exists, we have sent a password reset code.''
         else Inl (Error ''Failed to send password reset email''))
    \<and> otps (snd (forgotPassword w env email)) =
         map (\<lambda>x. if otp_userId x = user_id user \<and> otp_type x = PASSWORD_RESET
                         \<and> \<not> otp_isUsed x
                   then x\<lparr>otp_isUsed := True\<rparr> else x) (otps w) @ [otp]
    \<and> outbox (snd (forgotPassword w env email)) =
        (if sendMail env \<lparr>mail_to = email, mail_subject = ''Reset Your Password'',
                         mail_otpCode = newOtpCode env\<rparr>
         then outbox w @ [\<lparr>mail_to = email, mail_subject = ''Reset Your Password'',
                         mail_otpCode = newOtpCode env\<rparr>]
         else outbox w)
    \<and> otp_userId otp = user_id user \<and> otp_type otp = PASSWORD_RESET \<and> \<not> otp_isUsed otp
    \<and> otp_code otp = newOtpCode env \<and> otp_expiresAt otp = date_now env + 600000"
  using u
  by (simp add: forgotPassword_def Let_def sendPasswordResetOtp_def otp_create_def
      otp_updateMany_def)

section \<open>Register (C5)\<close>

text \<open>
  Claim C5, as amended. \<^verbatim>\<open>register\<close> rejects with an Unauthorized error (HTTP 401,
  ``User already exists'') when a user with the given email exists, and leaves the store as
  it is. Otherwise, \<^verbatim>\<open>Math.random()\<close> lying in [0, 1) and the mail being accepted, it
  hashes the password, appends an unverified user with that hash, appends an unused
  VERIFICATION code of six decimal digits expiring 10 minutes after the call, sends that
  code to the user's email, and returns the user without the \<^verbatim>\<open>password\<close> property, every
  other property unchanged.
\<close>

theorem register_behaviour:
  "(user_findUnique_email w (dto_email dto) = Some existingUser \<longrightarrow>
      register w env dto = (Inl (UnauthorizedException ''User already exists''), w)
      \<and> getStatus (UnauthorizedException ''User already exists'') = 401)
   \<and> (user_findUnique_email w (dto_email dto) = None
       \<and> 0 \<le> math_random env \<and> math_random env < 1
       \<and> sendMail env \<lparr>mail_to = dto_email dto, mail_subject = ''Verify Your Email Address'',
                        mail_otpCode = newOtpCode env\<rparr>
      \<longrightarrow> (\<exists>user otp.
        fst (register w env dto) =
          Inr \<lparr>rr_message = ''User registered successfully. Please check your email for the verification code.'',
               rr_user = omitPassword (userObject user)\<rparr>
        \<and> map_of (omitPassword (userObject user)) ''password'' = None
        \<and> (\<forall>k. k \<noteq> ''password'' \<longrightarrow>
              map_of (omitPassword (userObject user)) k = map_of (userObject user) k)
        \<and> users (snd (register w env dto)) = users w @ [user]
        \<and> user_email user = dto_email dto
        \<and> user_password user = bcrypt_hash env (dto_password dto) 10
        \<and> \<not> user_isEmailVerified user
        \<and> otps (snd (register w env dto)) = otps w @ [otp]
        \<and> otp_userId otp = user_id user \<and> otp_type otp = VERIFICATION \<and> \<not> otp_isUsed otp
        \<and> otp_expiresAt otp = date_now env + 10 * 60 * 1000
        \<and> otp_code otp = newOtpCode env
        \<and> length (otp_code otp) = 6 \<and> set (otp_code otp) \<subseteq> set ''0123456789''
        \<and> outbox (snd (register w env dto)) =
             outbox w @ [\<lparr>mail_to = user_email user,
                           mail_subject = ''Verify Your Email Address'',
                           mail_otpCode = otp_code otp\<rparr>]))"
proof -
  have a: "register w env dto = (Inl (UnauthorizedException ''User already exists''), w)
      \<and> getStatus (UnauthorizedException ''User already exists'') = 401"
    if "user_findUnique_email w (dto_email dto) = Some existingUser"
    using that by (simp add: register_def)
  have b: "\<exists>user otp.
        fst (register w env dto) =
          Inr \<lparr>rr_message = ''User registered successfully. Please check your email for the verification code.'',
               rr_user = omitPassword (userObject user)\<rparr>
        \<and> map_of (omitPassword (userObject user)) ''password'' = None
        \<and> (\<forall>k. k \<noteq> ''password'' \<longrightarrow>
              map_of (omitPassword (userObject user)) k = map_of (userObject user) k)
        \<and> users (snd (register w env dto)) = users w @ [user]
        \<and> user_email user = dto_email dto
        \<and> user_password user = bcrypt_hash env (dto_password dto) 10
        \<and> \<not> user_isEmailVerified user
        \<and> otps (snd (register w env dto)) = otps w @ [otp]
        \<and> otp_userId otp = user_id user \<and> otp_type otp = VERIFICATION \<and> \<not> otp_isUsed otp
        \<and> otp_expiresAt otp = date_now env + 10 * 60 * 1000
        \<and> otp_code otp = newOtpCode env
        \<and> length (otp_code otp) = 6 \<and> set (otp_code otp) \<subseteq> set ''0123456789''
        \<and> outbox (snd (register w env dto)) =
             outbox w @ [\<lparr>mail_to = user_email user,
                           mail_subject = ''Verify Your Email Address'',
                           mail_otpCode = otp_code otp\<rparr>]"
    if none: "user_findUnique_email w (dto_email dto) = None"
      and r: "0 \<le> math_random env" "math_random env < 1"
      and m: "sendMail env \<lparr>mail_to = dto_email dto, mail_subject = ''Verify Your Email Address'',
                        mail_otpCode = newOtpCode env\<rparr>"
  proof -
    from register_run[OF none, of env] obtain user otp where
      1: "fst (register w env dto) =
        (if sendMail env \<lparr>mail_to = dto_email dto, mail_subject = ''Verify Your Email Address'',
                         mail_otpCode = newOtpCode env\<rparr>
         then Inr \<lparr>rr_message = ''User registered successfully. Please check your email for the verification code.'',
                   rr_user = omitPassword (userObject user)\<rparr>
         else Inl (Error ''Failed to send verification email''))"
      and 2: "users (snd (register w env dto)) = users w @ [user]"
        "otps (snd (register w env dto)) = otps w @ [otp]"
      and 3: "outbox (snd (register w env dto)) =
        (if sendMail env \<lparr>mail_to = dto_email dto, mail_subject = ''Verify Your Email Address'',
                         mail_otpCode = newOtpCode env\<rparr>
         then outbox w @ [\<lparr>mail_to = dto_email dto, mail_subject = ''Verify Your Email Address'',
                         mail_otpCode = newOtpCode env\<rparr>]
         else outbox w)"
      and 4: "user_email user = dto_email dto"
        "user_password user = bcrypt_hash env (dto_password dto) 10"
        "\<not> user_isEmailVerified user"
      and 5: "otp_userId otp = user_id user" "otp_type otp = VERIFICATION" "\<not> otp_isUsed otp"
        "otp_code otp = newOtpCode env" "otp_expiresAt otp = date_now env + 600000"
      by blast
    note six = newOtpCode_six_digits[OF r]
    show ?thesis
      apply (rule exI[of _ user], rule exI[of _ otp])
      using 1 2 3 4 5 six m by (simp add: omitPassword_map_of)
  qed
  from a b show ?thesis by blast
qed

text \<open>
  Counterexample to C5 as stated: registering Ann's email again is answered with
  \<^verbatim>\<open>UnauthorizedException\<close>, status 401, and not with a Conflict (409).
\<close>

theorem register_behaviour_counterexample:
  "user_findUnique_email world0 (dto_email ann_dto) = Some alice
   \<and> fst (register world0 env0 ann_dto) = Inl (UnauthorizedException ''User already exists'')
   \<and> getStatus (UnauthorizedException ''User already exists'') = 401
   \<and> getStatus (ConflictException ''User already exists'') = 409"
  by (simp add: register_def user_findUnique_email_def ex_defs ann_dto_def)

text \<open>
  Witness for C5: Ann's email is refused; Bob is registered, and the code 550000 is mailed.
\<close>

theorem register_behaviour_witness:
  "user_findUnique_email world0 (dto_email ann_dto) = Some alice
   \<and> register world0 env0 ann_dto = (Inl (UnauthorizedException ''User already exists''), world0)
   \<and> user_findUnique_email world0 (dto_email bob_dto) = None
   \<and> 0 \<le> math_random env0 \<and> math_random env0 < 1
   \<and> sendMail env0 \<lparr>mail_to = dto_email bob_dto, mail_subject = ''Verify Your Email Address'',
                       mail_otpCode = newOtpCode env0\<rparr>
   \<and> (\<exists>user otp.
        fst (register world0 env0 bob_dto) =
          Inr \<lparr>rr_message = ''User registered successfully. Please check your email for the verification code.'',
               rr_user = omitPassword (userObject user)\<rparr>
        \<and> map_of (omitPassword (userObject user)) ''password'' = None
        \<and> users (snd (register world0 env0 bob_dto)) = users world0 @ [user]
        \<and> user_password user = bcrypt_hash env0 (dto_password bob_dto) 10
        \<and> \<not> user_isEmailVerified user
        \<and> otps (snd (register world0 env0 bob_dto)) = otps world0 @ [otp]
        \<and> otp_type otp = VERIFICATION \<and> otp_expiresAt otp = date_now env0 + 10 * 60 * 1000
        \<and> length (otp_code otp) = 6)
   \<and> outbox (snd (register world0 env0 bob_dto)) =
        [\<lparr>mail_to = ''b@x.com'', mail_subject = ''Verify Your Email Address'',
          mail_otpCode = ''550000''\<rparr>]"
proof -
  have a: "user_findUnique_email world0 (dto_email ann_dto) = Some alice"
    by (simp add: user_findUnique_email_def ex_defs ann_dto_def)
  have b: "user_findUnique_email world0 (dto_email bob_dto) = None
   \<and> 0 \<le> math_random env0 \<and> math_random env0 < 1
   \<and> sendMail env0 \<lparr>mail_to = dto_email bob_dto, mail_subject = ''Verify Your Email Address'',
                       mail_otpCode = newOtpCode env0\<rparr>"
    by (simp add: user_findUnique_email_def ex_defs bob_dto_def)
  from register_behaviour[of world0 bob_dto alice env0] b
  obtain user otp where c: "fst (register world0 env0 bob_dto) =
          Inr \<lparr>rr_message = ''User registered successfully. Please check your email for the verification code.'',
               rr_user = omitPassword (userObject user)\<rparr>
        \<and> map_of (omitPassword (userObject user)) ''password'' = None
        \<and> users (snd (register world0 env0 bob_dto)) = users world0 @ [user]
        \<and> user_email user = dto_email bob_dto
        \<and> user_password user = bcrypt_hash env0 (dto_password bob_dto) 10
        \<and> \<not> user_isEmailVerified user
        \<and> otps (snd (register world0 env0 bob_dto)) = otps world0 @ [otp]
        \<and> otp_type otp = VERIFICATION \<and> otp_expiresAt otp = date_now env0 + 10 * 60 * 1000
        \<and> otp_code otp = newOtpCode env0
        \<and> length (otp_code otp) = 6
        \<and> outbox (snd (register world0 env0 bob_dto)) =
             outbox world0 @ [\<lparr>mail_to = user_email user,
                           mail_subject = ''Verify Your Email Address'',
                           mail_otpCode = otp_code otp\<rparr>]"
    by blast
  have d: "outbox (snd (register world0 env0 bob_dto)) =
        [\<lparr>mail_to = ''b@x.com'', mail_subject = ''Verify Your Email Address'',
          mail_otpCode = ''550000''\<rparr>]"
    using c by (simp add: newOtpCode_env0 bob_dto_def world0_def)
  from register_behaviour[of world0 ann_dto alice env0] a
  have e: "register world0 env0 ann_dto = (Inl (UnauthorizedException ''User already exists''), world0)"
    by simp
  from a b c d e show ?thesis by blast
qed

section \<open>Forgotten password: one message (C7)\<close>

lemma forgotPassword_unknown:
  assumes "user_findUnique_email w email = None"
  shows "forgotPassword w env email =
     (Inr ''If an account with that email exists, we have sent a password reset code.'', w)"
  using assms by (simp add: forgotPassword_def)

lemma forgotPassword_message:
  assumes "fst (forgotPassword w env email) = Inr m"
  shows "m = ''If an account with that email exists, we have sent a password reset code.''"
proof (cases "user_findUnique_email w email")
  case None
  with assms show ?thesis by (simp add: forgotPassword_unknown)
next
  case (Some user)
  from forgotPassword_run[OF Some, of env] assms show ?thesis
    by (auto split: if_splits)
qed

text \<open>
  Claim C7, as amended. \<^verbatim>\<open>forgotPassword\<close> returns the message ``If an account with that
  email exists, we have sent a password reset code.'' for an unregistered email, and the
  same message for a registered one when the transporter accepts the mail; when it refuses,
  the call for the registered email raises ``Failed to send password reset email'' and
  returns no message. So whenever the calls for a registered and for an unregistered email
  both return, the returned messages are equal, character by character.
\<close>

theorem forgotPassword_same_message:
  "(user_findUnique_email w email = None \<longrightarrow>
      forgotPassword w env email =
        (Inr ''If an account with that email exists, we have sent a password reset code.'', w))
   \<and> (user_findUnique_email w email = Some user \<longrightarrow>
      fst (forgotPassword w env email) =
        (if sendMail env \<lparr>mail_to = email, mail_subject = ''Reset Your Password'',
                         mail_otpCode = newOtpCode env\<rparr>
         then Inr ''If an account with that email exists, we have sent a password reset code.''
         else Inl (Error ''Failed to send password reset email'')))
   \<and> (user_findUnique_email w1 email1 = Some user1 \<and> user_findUnique_email w2 email2 = None
       \<and> fst (forgotPassword w1 env1 email1) = Inr m1
       \<and> fst (forgotPassword w2 env2 email2) = Inr m2 \<longrightarrow> m1 = m2)"
proof -
  have a: "fst (forgotPassword w env email) =
        (if sendMail env \<lparr>mail_to = email, mail_subject = ''Reset Your Password'',
                         mail_otpCode = newOtpCode env\<rparr>
         then Inr ''If an account with that email exists, we have sent a password reset code.''
         else Inl (Error ''Failed to send password reset email''))"
    if "user_findUnique_email w email = Some user"
    using forgotPassword_run[OF that, of env] by (elim exE conjE)
  have b: "m1 = m2"
    if "fst (forgotPassword w1 env1 email1) = Inr m1" "fst (forgotPassword w2 env2 email2) = Inr m2"
    using forgotPassword_message[OF that(1)] forgotPassword_message[OF that(2)] by simp
  show ?thesis
    apply (intro conjI impI)
    subgoal by (rule forgotPassword_unknown)
    subgoal by (rule a)
    subgoal by (elim conjE) (rule b)
    done
qed

text \<open>
  Counterexample to C7 as stated: with a transporter that refuses the mail, Ann's registered
  email is answered with an error and Bob's unregistered one with the success message.
\<close>

theorem forgotPassword_same_message_counterexample:
  "user_findUnique_email world0 ''a@x.com'' = Some alice
   \<and> user_findUnique_email world0 ''b@x.com'' = None
   \<and> fst (forgotPassword world0 env_nomail ''a@x.com'')
        = Inl (Error ''Failed to send password reset email'')
   \<and> getStatus (Error ''Failed to send password reset email'') = 500
   \<and> fst (forgotPassword world0 env_nomail ''b@x.com'') =
        Inr ''If an account with that email exists, we have sent a password reset code.''"
  by (simp add: forgotPassword_def sendPasswordResetOtp_def user_findUnique_email_def Let_def
      ex_defs env_nomail_def)

text \<open>
  Witness for C7: with a working transporter Ann's registered email and Bob's unregistered
  one get the same answer; with a refusing one Ann's call raises.
\<close>

theorem forgotPassword_same_message_witness:
  "user_findUnique_email world0 ''a@x.com'' = Some alice
   \<and> user_findUnique_email world0 ''b@x.com'' = None
   \<and> fst (forgotPassword world0 env0 ''a@x.com'') =
        Inr ''If an account with that email exists, we have sent a password reset code.''
   \<and> fst (forgotPassword world0 env1 ''b@x.com'') =
        Inr ''If an account with that email exists, we have sent a password reset code.''
   \<and> fst (forgotPassword world0 env0 ''a@x.com'') = fst (forgotPassword world0 env1 ''b@x.com'')
   \<and> fst (forgotPassword world0 env_nomail ''a@x.com'')
        = Inl (Error ''Failed to send password reset email'')"
proof -
  have a: "user_findUnique_email world0 ''a@x.com'' = Some alice"
    "user_findUnique_email world0 ''b@x.com'' = None"
    by (simp_all add: user_findUnique_email_def ex_defs)
  have m: "sendMail env0 \<lparr>mail_to = ''a@x.com'', mail_subject = ''Reset Your Password'',
                        mail_otpCode = newOtpCode env0\<rparr>"
    by (simp add: env0_def)
  have n: "\<not> sendMail env_nomail \<lparr>mail_to = ''a@x.com'', mail_subject = ''Reset Your Password'',
                        mail_otpCode = newOtpCode env_nomail\<rparr>"
    by (simp add: env_nomail_def)
  from forgotPassword_same_message[of world0 "''a@x.com''" env0 alice] a m
  have 1: "fst (forgotPassword world0 env0 ''a@x.com'') =
        Inr ''If an account with that email exists, we have sent a password reset code.''"
    by simp
  from forgotPassword_same_message[of world0 "''b@x.com''" env1 alice] a
  have 2: "fst (forgotPassword world0 env1 ''b@x.com'') =
        Inr ''If an account with that email exists, we have sent a password reset code.''"
    by simp
  from forgotPassword_same_message[of world0 "''a@x.com''" env_nomail alice] a n
  have 3: "fst (forgotPassword world0 env_nomail ''a@x.com'')
        = Inl (Error ''Failed to send password reset email'')"
    by simp
  from a 1 2 3 show ?thesis by simp
qed

section \<open>Mail failures are raised (C9)\<close>

text \<open>
  Claim C9. When the transporter refuses the mail, \<^verbatim>\<open>register\<close> (of a new email) raises
  ``Failed to send verification email'' and \<^verbatim>\<open>forgotPassword\<close> (of a registered email)
  raises ``Failed to send password reset email'' instead of returning their success messages,
  although the new code is already in the store; nothing is added to the sent mail.
\<close>

theorem mail_failure_raises:
  "(user_findUnique_email w (dto_email dto) = None
    \<and> \<not> sendMail env \<lparr>mail_to = dto_email dto, mail_subject = ''Verify Your Email Address'',
                       mail_otpCode = newOtpCode env\<rparr>
    \<longrightarrow> fst (register w env dto) = Inl (Error ''Failed to send verification email'')
       \<and> (\<exists>otp. otps (snd (register w env dto)) = otps w @ [otp]
             \<and> otp_code otp = newOtpCode env \<and> otp_type otp = VERIFICATION
             \<and> \<not> otp_isUsed otp \<and> otp_expiresAt otp = date_now env + 600000)
       \<and> outbox (snd (register w env dto)) = outbox w)
   \<and> (user_findUnique_email w email = Some user
    \<and> \<not> sendMail env \<lparr>mail_to = email, mail_subject = ''Reset Your Password'',
                       mail_otpCode = newOtpCode env\<rparr>
    \<longrightarrow> fst (forgotPassword w env email) = Inl (Error ''Failed to send password reset email'')
       \<and> (\<exists>otp. otps (snd (forgotPassword w env email)) =
               map (\<lambda>x. if otp_userId x = user_id user \<and> otp_type x = PASSWORD_RESET
                             \<and> \<not> otp_isUsed x
                         then x\<lparr>otp_isUsed := True\<rparr> else x) (otps w) @ [otp]
             \<and> otp_userId otp = user_id user
             \<and> otp_code otp = newOtpCode env \<and> otp_type otp = PASSWORD_RESET
             \<and> \<not> otp_isUsed otp \<and> otp_expiresAt otp = date_now env + 600000)
       \<and> outbox (snd (forgotPassword w env email)) = outbox w)"
proof -
  have a: "fst (register w env dto) = Inl (Error ''Failed to send verification email'')
       \<and> (\<exists>otp. otps (snd (register w env dto)) = otps w @ [otp]
             \<and> otp_code otp = newOtpCode env \<and> otp_type otp = VERIFICATION
             \<and> \<not> otp_isUsed otp \<and> otp_expiresAt otp = date_now env + 600000)
       \<and> outbox (snd (register w env dto)) = outbox w"
    if "user_findUnique_email w (dto_email dto) = None"
      "\<not> sendMail env \<lparr>mail_to = dto_email dto, mail_subject = ''Verify Your Email Address'',
                       mail_otpCode = newOtpCode env\<rparr>"
    using register_run[OF that(1), of env] that(2) by auto
  have b: "fst (forgotPassword w env email) = Inl (Error ''Failed to send password reset email'')
       \<and> (\<exists>otp. otps (snd (forgotPassword w env email)) =
               map (\<lambda>x. if otp_userId x = user_id user \<and> otp_type x = PASSWORD_RESET
                             \<and> \<not> otp_isUsed x
                         then x\<lparr>otp_isUsed := True\<rparr> else x) (otps w) @ [otp]
             \<and> otp_userId otp = user_id user
             \<and> otp_code otp = newOtpCode env \<and> otp_type otp = PASSWORD_RESET
             \<and> \<not> otp_isUsed otp \<and> otp_expiresAt otp = date_now env + 600000)
       \<and> outbox (snd (forgotPassword w env email)) = outbox w"
    if "user_findUnique_email w email = Some user"
      "\<not> sendMail env \<lparr>mail_to = email, mail_subject = ''Reset Your Password'',
                       mail_otpCode = newOtpCode env\<rparr>"
    using forgotPassword_run[OF that(1), of env] that(2) by auto
  from a b show ?thesis by blast
qed

text \<open>Witness for C9: with a transporter that refuses everything, both calls raise.\<close>

theorem mail_failure_raises_witness:
  "user_findUnique_email world0 (dto_email bob_dto) = None
   \<and> user_findUnique_email world0 ''a@x.com'' = Some alice
   \<and> \<not> sendMail env_nomail \<lparr>mail_to = dto_email bob_dto,
          mail_subject = ''Verify Your Email Address'', mail_otpCode = newOtpCode env_nomail\<rparr>
   \<and> \<not> sendMail env_nomail \<lparr>mail_to = ''a@x.com'',
          mail_subject = ''Reset Your Password'', mail_otpCode = newOtpCode env_nomail\<rparr>
   \<and> fst (register world0 env_nomail bob_dto) = Inl (Error ''Failed to send verification email'')
   \<and> (\<exists>otp. otps (snd (register world0 env_nomail bob_dto)) = otps world0 @ [otp]
             \<and> otp_type otp = VERIFICATION \<and> \<not> otp_isUsed otp)
   \<and> fst (forgotPassword world0 env_nomail ''a@x.com'')
        = Inl (Error ''Failed to send password reset email'')
   \<and> (\<exists>otp. otps (snd (forgotPassword world0 env_nomail ''a@x.com'')) = otps world0 @ [otp]
             \<and> otp_type otp = PASSWORD_RESET \<and> \<not> otp_isUsed otp)"
proof -
  have a: "user_findUnique_email world0 (dto_email bob_dto) = None"
    "user_findUnique_email world0 ''a@x.com'' = Some alice"
    by (simp_all add: user_findUnique_email_def ex_defs bob_dto_def)
  have m: "\<not> sendMail env_nomail \<lparr>mail_to = dto_email bob_dto,
          mail_subject = ''Verify Your Email Address'', mail_otpCode = newOtpCode env_nomail\<rparr>"
    "\<not> sendMail env_nomail \<lparr>mail_to = ''a@x.com'',
          mail_subject = ''Reset Your Password'', mail_otpCode = newOtpCode env_nomail\<rparr>"
    by (simp_all add: env_nomail_def)
  have e: "otps world0 = []" by (simp add: world0_def)
  from mail_failure_raises[of world0 bob_dto env_nomail "''a@x.com''" alice] a m
  show ?thesis unfolding e by auto
qed

section \<open>One valid code per user and type (C4)\<close>

lemma validOtps_mono:
  assumes "t \<le> t'"
  shows "length (validOtps w uid ty t') \<le> length (validOtps w uid ty t)"
  unfolding validOtps_def using assms by (intro length_filter_imp) auto

text \<open>The effect of invalidate-then-create on the number of valid codes.\<close>

lemma issue_bound:
  assumes inv: "length (validOtps w uid ty t) \<le> 1"
    and le: "t \<le> t'"
    and o: "otps w' = map (\<lambda>x. if Q x then x\<lparr>otp_isUsed := True\<rparr> else x) (otps w) @ [new]"
    and cover: "\<And>x. x \<in> set (otps w) \<Longrightarrow> otp_userId x = otp_userId new
                  \<Longrightarrow> otp_type x = otp_type new \<Longrightarrow> \<not> otp_isUsed x \<Longrightarrow> Q x"
  shows "length (validOtps w' uid ty t') \<le> 1"
proof -
  let ?V = "\<lambda>otp. otp_userId otp = uid \<and> otp_type otp = ty \<and> \<not> otp_isUsed otp
                  \<and> otp_expiresAt otp > t'"
  let ?f = "\<lambda>x. if Q x then x\<lparr>otp_isUsed := True\<rparr> else x"
  have split: "validOtps w' uid ty t' = filter ?V (map ?f (otps w)) @ filter ?V [new]"
    unfolding validOtps_def o by simp
  show ?thesis
  proof (cases "uid = otp_userId new \<and> ty = otp_type new")
    case True
    have "\<not> ?V (?f x)" if "x \<in> set (otps w)" for x
    proof (cases "Q x")
      case True
      then show ?thesis by simp
    next
      case False
      with cover[OF that] True show ?thesis by auto
    qed
    then have "filter ?V (map ?f (otps w)) = []"
      by (rule filter_map_empty)
    then show ?thesis unfolding split by simp
  next
    case False
    then have "filter ?V [new] = []" by auto
    moreover have "length (filter ?V (map ?f (otps w))) \<le> length (filter ?V (otps w))"
      by (intro length_filter_map_le) (auto split: if_splits)
    moreover have "length (filter ?V (otps w)) \<le> length (validOtps w uid ty t)"
      using validOtps_mono[OF le, of w uid ty] by (simp add: validOtps_def)
    ultimately show ?thesis unfolding split using inv by simp
  qed
qed

lemma keep_bound:
  assumes inv: "length (validOtps w uid ty t) \<le> 1" and le: "t \<le> t'" and o: "otps w' = otps w"
  shows "length (validOtps w' uid ty t') \<le> 1"
proof -
  have "validOtps w' uid ty t' = validOtps w uid ty t'" by (simp add: validOtps_def o)
  with validOtps_mono[OF le, of w uid ty] inv show ?thesis by simp
qed

lemma issue_exact:
  assumes o: "otps w' = map (\<lambda>x. if Q x then x\<lparr>otp_isUsed := True\<rparr> else x) (otps w) @ [new]"
    and cover: "\<And>x. x \<in> set (otps w) \<Longrightarrow> otp_userId x = otp_userId new
                  \<Longrightarrow> otp_type x = otp_type new \<Longrightarrow> \<not> otp_isUsed x \<Longrightarrow> Q x"
    and n: "\<not> otp_isUsed new" "t < otp_expiresAt new"
  shows "validOtps w' (otp_userId new) (otp_type new) t = [new]"
proof -
  let ?V = "\<lambda>otp. otp_userId otp = otp_userId new \<and> otp_type otp = otp_type new
                  \<and> \<not> otp_isUsed otp \<and> otp_expiresAt otp > t"
  let ?f = "\<lambda>x. if Q x then x\<lparr>otp_isUsed := True\<rparr> else x"
  have "\<not> ?V (?f x)" if "x \<in> set (otps w)" for x
  proof (cases "Q x")
    case True
    then show ?thesis by simp
  next
    case False
    with cover[OF that] show ?thesis by auto
  qed
  then have "filter ?V (map ?f (otps w)) = []"
    by (rule filter_map_empty)
  then show ?thesis unfolding validOtps_def o using n by simp
qed

lemma fk_issue:
  assumes fk: "\<forall>otp \<in> set (otps w). otp_userId otp \<in> set (map user_id (users w))"
    and o: "otps w' = map (\<lambda>x. if Q x then x\<lparr>otp_isUsed := True\<rparr> else x) (otps w) @ [new]"
    and n: "otp_userId new \<in> set (map user_id (users w'))"
    and us: "set (users w) \<subseteq> set (users w')"
  shows "\<forall>otp \<in> set (otps w'). otp_userId otp \<in> set (map user_id (users w'))"
proof
  fix y assume "y \<in> set (otps w')"
  then consider "y = new" | x where "x \<in> set (otps w)"
      "y = (if Q x then x\<lparr>otp_isUsed := True\<rparr> else x)"
    unfolding o by auto
  then show "otp_userId y \<in> set (map user_id (users w'))"
  proof cases
    case 1
    with n show ?thesis by simp
  next
    case 2
    then have "otp_userId y = otp_userId x" by simp
    with fk 2(1) us show ?thesis by auto
  qed
qed

lemma issue_shape:
  "\<exists>new. otps (otp_create (otp_updateMany w Q) env code e ty uid) =
            map (\<lambda>x. if Q x then x\<lparr>otp_isUsed := True\<rparr> else x) (otps w) @ [new]
      \<and> otp_userId new = uid \<and> otp_type new = ty \<and> \<not> otp_isUsed new
      \<and> otp_code new = code \<and> otp_expiresAt new = e"
  by (simp add: otp_create_def otp_updateMany_def)

lemma users_after_issue:
  "users (snd (sendOtp w env email)) = users w"
  "users (snd (forgotPassword w env email)) = users w"
  "users (snd (resendVerificationEmail w env email)) = users w"
  by (simp_all add: sendOtp_def forgotPassword_def resendVerificationEmail_def Let_def
      snd_case_result mail_keeps_tables otp_create_def otp_updateMany_def split: option.split)

lemma sendOtp_otps:
  assumes "user_findUnique_email w email = Some user"
  shows "\<exists>new. otps (snd (sendOtp w env email)) =
            map (\<lambda>x. if otp_userId x = user_id user \<and> \<not> otp_isUsed x
                      then x\<lparr>otp_isUsed := True\<rparr> else x) (otps w) @ [new]
      \<and> otp_userId new = user_id user \<and> otp_type new = LOGIN \<and> \<not> otp_isUsed new
      \<and> otp_code new = newOtpCode env \<and> otp_expiresAt new = date_now env + 600000"
proof -
  have "otps (snd (sendOtp w env email)) =
     otps (otp_create (otp_updateMany w (\<lambda>otp. otp_userId otp = user_id user \<and> \<not> otp_isUsed otp))
             env (newOtpCode env) (date_now env + 600000) LOGIN (user_id user))"
    using assms by (simp add: sendOtp_def Let_def snd_case_result mail_keeps_tables)
  then show ?thesis using issue_shape by simp
qed

lemma forgotPassword_otps:
  assumes "user_findUnique_email w email = Some user"
  shows "\<exists>new. otps (snd (forgotPassword w env email)) =
            map (\<lambda>x. if otp_userId x = user_id user \<and> otp_type x = PASSWORD_RESET
                         \<and> \<not> otp_isUsed x
                      then x\<lparr>otp_isUsed := True\<rparr> else x) (otps w) @ [new]
      \<and> otp_userId new = user_id user \<and> otp_type new = PASSWORD_RESET \<and> \<not> otp_isUsed new
      \<and> otp_code new = newOtpCode env \<and> otp_expiresAt new = date_now env + 600000"
proof -
  have "otps (snd (forgotPassword w env email)) =
     otps (otp_create (otp_updateMany w (\<lambda>otp. otp_userId otp = user_id user
               \<and> otp_type otp = PASSWORD_RESET \<and> \<not> otp_isUsed otp))
             env (newOtpCode env) (date_now env + 600000) PASSWORD_RESET (user_id user))"
    using assms by (simp add: forgotPassword_def Let_def snd_case_result mail_keeps_tables)
  then show ?thesis using issue_shape by simp
qed

lemma resendVerificationEmail_otps:
  assumes "user_findUnique_email w email = Some user" "\<not> user_isEmailVerified user"
  shows "\<exists>new. otps (snd (resendVerificationEmail w env email)) =
            map (\<lambda>x. if otp_userId x = user_id user \<and> otp_type x = VERIFICATION
                         \<and> \<not> otp_isUsed x
                      then x\<lparr>otp_isUsed := True\<rparr> else x) (otps w) @ [new]
      \<and> otp_userId new = user_id user \<and> otp_type new = VERIFICATION \<and> \<not> otp_isUsed new
      \<and> otp_code new = newOtpCode env \<and> otp_expiresAt new = date_now env + 600000"
proof -
  have "otps (snd (resendVerificationEmail w env email)) =
     otps (otp_create (otp_updateMany w (\<lambda>otp. otp_userId otp = user_id user
               \<and> otp_type otp = VERIFICATION \<and> \<not> otp_isUsed otp))
             env (newOtpCode env) (date_now env + 600000) VERIFICATION (user_id user))"
    using assms
    by (simp add: resendVerificationEmail_def Let_def snd_case_result mail_keeps_tables)
  then show ?thesis using issue_shape by simp
qed

lemma register_otps:
  assumes "user_findUnique_email w (dto_email dto) = None"
  shows "\<exists>new. otps (snd (register w env dto)) = otps w @ [new]
      \<and> otp_userId new = cuid (map user_id (users w)) \<and> otp_type new = VERIFICATION
      \<and> \<not> otp_isUsed new
      \<and> otp_code new = newOtpCode env \<and> otp_expiresAt new = date_now env + 600000"
proof -
  obtain user where c: "user_create w env dto (bcrypt_hash env (dto_password dto) 10)
        = Inr (user, w\<lparr>users := users w @ [user]\<rparr>)"
    and i: "user_id user = cuid (map user_id (users w))"
    using user_create_new[OF assms] by blast
  have "otps (snd (register w env dto)) =
     otps (otp_create (w\<lparr>users := users w @ [user]\<rparr>) env (newOtpCode env)
             (date_now env + 600000) VERIFICATION (user_id user))"
    using assms c by (simp add: register_def Let_def snd_case_result mail_keeps_tables)
  then show ?thesis using i by (simp add: otp_create_def)
qed

lemma sendOtp_bound:
  assumes inv: "\<forall>uid ty. length (validOtps w uid ty (date_now env)) \<le> 1"
    and le: "date_now env \<le> t"
  shows "length (validOtps (snd (sendOtp w env email)) uid ty t) \<le> 1"
proof (cases "user_findUnique_email w email")
  case None
  then have "otps (snd (sendOtp w env email)) = otps w" by (simp add: sendOtp_def)
  with inv le show ?thesis using keep_bound by blast
next
  case (Some user)
  from sendOtp_otps[OF Some, of env] obtain new where
    o: "otps (snd (sendOtp w env email)) =
            map (\<lambda>x. if otp_userId x = user_id user \<and> \<not> otp_isUsed x
                      then x\<lparr>otp_isUsed := True\<rparr> else x) (otps w) @ [new]"
    and n: "otp_userId new = user_id user"
    by blast
  from inv have i: "length (validOtps w uid ty (date_now env)) \<le> 1" by blast
  show ?thesis
    by (rule issue_bound[OF i le o]) (simp add: n)
qed

lemma forgotPassword_bound:
  assumes inv: "\<forall>uid ty. length (validOtps w uid ty (date_now env)) \<le> 1"
    and le: "date_now env \<le> t"
  shows "length (validOtps (snd (forgotPassword w env email)) uid ty t) \<le> 1"
proof (cases "user_findUnique_email w email")
  case None
  then have "otps (snd (forgotPassword w env email)) = otps w" by (simp add: forgotPassword_def)
  with inv le show ?thesis using keep_bound by blast
next
  case (Some user)
  from forgotPassword_otps[OF Some, of env] obtain new where
    o: "otps (snd (forgotPassword w env email)) =
            map (\<lambda>x. if otp_userId x = user_id user \<and> otp_type x = PASSWORD_RESET
                         \<and> \<not> otp_isUsed x
                      then x\<lparr>otp_isUsed := True\<rparr> else x) (otps w) @ [new]"
    and n: "otp_userId new = user_id user" "otp_type new = PASSWORD_RESET"
    by blast
  from inv have i: "length (validOtps w uid ty (date_now env)) \<le> 1" by blast
  show ?thesis
    by (rule issue_bound[OF i le o]) (simp add: n)
qed

lemma resendVerificationEmail_bound:
  assumes inv: "\<forall>uid ty. length (validOtps w uid ty (date_now env)) \<le> 1"
    and le: "date_now env \<le> t"
  shows "length (validOtps (snd (resendVerificationEmail w env email)) uid ty t) \<le> 1"
proof (cases "user_findUnique_email w email")
  case None
  then have "otps (snd (resendVerificationEmail w env email)) = otps w"
    by (simp add: resendVerificationEmail_def)
  with inv le show ?thesis using keep_bound by blast
next
  case (Some user)
  show ?thesis
  proof (cases "user_isEmailVerified user")
    case True
    with Some have "otps (snd (resendVerificationEmail w env email)) = otps w"
      by (simp add: resendVerificationEmail_def)
    with inv le show ?thesis using keep_bound by blast
  next
    case False
    from resendVerificationEmail_otps[OF Some False, of env] obtain new where
      o: "otps (snd (resendVerificationEmail w env email)) =
            map (\<lambda>x. if otp_userId x = user_id user \<and> otp_type x = VERIFICATION
                         \<and> \<not> otp_isUsed x
                      then x\<lparr>otp_isUsed := True\<rparr> else x) (otps w) @ [new]"
      and n: "otp_userId new = user_id user" "otp_type new = VERIFICATION"
      by blast
    from inv have i: "length (validOtps w uid ty (date_now env)) \<le> 1" by blast
    show ?thesis
      by (rule issue_bound[OF i le o]) (simp add: n)
  qed
qed

lemma register_bound:
  assumes inv: "\<forall>uid ty. length (validOtps w uid ty (date_now env)) \<le> 1"
    and fk: "\<forall>otp \<in> set (otps w). otp_userId otp \<in> set (map user_id (users w))"
    and le: "date_now env \<le> t"
  shows "length (validOtps (snd (register w env dto)) uid ty t) \<le> 1"
proof (cases "user_findUnique_email w (dto_email dto)")
  case (Some user)
  then have "otps (snd (register w env dto)) = otps w" by (simp add: register_def)
  with inv le show ?thesis using keep_bound by blast
next
  case None
  from register_otps[OF None, of env] obtain new where
    o: "otps (snd (register w env dto)) = otps w @ [new]"
    and n: "otp_userId new = cuid (map user_id (users w))"
    by blast
  have o': "otps (snd (register w env dto)) =
      map (\<lambda>x. if False then x\<lparr>otp_isUsed := True\<rparr> else x) (otps w) @ [new]"
    using o by simp
  from inv have i: "length (validOtps w uid ty (date_now env)) \<le> 1" by blast
  have no: "otp_userId x \<noteq> otp_userId new" if "x \<in> set (otps w)" for x
    using fk that cuid_fresh[of "map user_id (users w)"] unfolding n by metis
  show ?thesis
    by (rule issue_bound[OF i le o']) (use no in blast)
qed

lemma sendOtp_fk:
  assumes fk: "\<forall>otp \<in> set (otps w). otp_userId otp \<in> set (map user_id (users w))"
  shows "\<forall>otp \<in> set (otps (snd (sendOtp w env email))).
           otp_userId otp \<in> set (map user_id (users (snd (sendOtp w env email))))"
proof (cases "user_findUnique_email w email")
  case None
  then have "snd (sendOtp w env email) = w" by (simp add: sendOtp_def)
  with fk show ?thesis by simp
next
  case (Some user)
  from sendOtp_otps[OF Some, of env] obtain new where
    o: "otps (snd (sendOtp w env email)) =
            map (\<lambda>x. if otp_userId x = user_id user \<and> \<not> otp_isUsed x
                      then x\<lparr>otp_isUsed := True\<rparr> else x) (otps w) @ [new]"
    and n: "otp_userId new = user_id user"
    by blast
  show ?thesis
    by (rule fk_issue[OF fk o])
      (use user_find_email_mem[OF Some] n in \<open>simp_all add: users_after_issue\<close>)
qed

lemma forgotPassword_fk:
  assumes fk: "\<forall>otp \<in> set (otps w). otp_userId otp \<in> set (map user_id (users w))"
  shows "\<forall>otp \<in> set (otps (snd (forgotPassword w env email))).
           otp_userId otp \<in> set (map user_id (users (snd (forgotPassword w env email))))"
proof (cases "user_findUnique_email w email")
  case None
  then have "snd (forgotPassword w env email) = w" by (simp add: forgotPassword_def)
  with fk show ?thesis by simp
next
  case (Some user)
  from forgotPassword_otps[OF Some, of env] obtain new where
    o: "otps (snd (forgotPassword w env email)) =
            map (\<lambda>x. if otp_userId x = user_id user \<and> otp_type x = PASSWORD_RESET
                         \<and> \<not> otp_isUsed x
                      then x\<lparr>otp_isUsed := True\<rparr> else x) (otps w) @ [new]"
    and n: "otp_userId new = user_id user"
    by blast
  show ?thesis
    by (rule fk_issue[OF fk o])
      (use user_find_email_mem[OF Some] n in \<open>simp_all add: users_after_issue\<close>)
qed

lemma resendVerificationEmail_fk:
  assumes fk: "\<forall>otp \<in> set (otps w). otp_userId otp \<in> set (map user_id (users w))"
  shows "\<forall>otp \<in> set (otps (snd (resendVerificationEmail w env email))).
     otp_userId otp \<in> set (map user_id (users (snd (resendVerificationEmail w env email))))"
proof (cases "user_findUnique_email w email")
  case None
  then have "snd (resendVerificationEmail w env email) = w"
    by (simp add: resendVerificationEmail_def)
  with fk show ?thesis by simp
next
  case (Some user)
  show ?thesis
  proof (cases "user_isEmailVerified user")
    case True
    with Some have "snd (resendVerificationEmail w env email) = w"
      by (simp add: resendVerificationEmail_def)
    with fk show ?thesis by simp
  next
    case False
    from resendVerificationEmail_otps[OF Some False, of env] obtain new where
      o: "otps (snd (resendVerificationEmail w env email)) =
            map (\<lambda>x. if otp_userId x = user_id user \<and> otp_type x = VERIFICATION
                         \<and> \<not> otp_isUsed x
                      then x\<lparr>otp_isUsed := True\<rparr> else x) (otps w) @ [new]"
      and n: "otp_userId new = user_id user"
      by blast
    show ?thesis
      by (rule fk_issue[OF fk o])
        (use user_find_email_mem[OF Some] n in \<open>simp_all add: users_after_issue\<close>)
  qed
qed

lemma register_fk:
  assumes fk: "\<forall>otp \<in> set (otps w). otp_userId otp \<in> set (map user_id (users w))"
  shows "\<forall>otp \<in> set (otps (snd (register w env dto))).
     otp_userId otp \<in> set (map user_id (users (snd (register w env dto))))"
proof (cases "user_findUnique_email w (dto_email dto)")
  case (Some user)
  then have "snd (register w env dto) = w" by (simp add: register_def)
  with fk show ?thesis by simp
next
  case None
  from register_run[OF None, of env] obtain user new where
    us: "users (snd (register w env dto)) = users w @ [user]"
    and o: "otps (snd (register w env dto)) = otps w @ [new]"
    and n: "otp_userId new = user_id user"
    by blast
  have o': "otps (snd (register w env dto)) =
      map (\<lambda>x. if False then x\<lparr>otp_isUsed := True\<rparr> else x) (otps w) @ [new]"
    using o by simp
  show ?thesis
    by (rule fk_issue[OF fk o']) (auto simp: us n)
qed

lemma sendOtp_exact:
  assumes u: "user_findUnique_email w email = Some user"
  shows "\<exists>new. validOtps (snd (sendOtp w env email)) (user_id user) LOGIN (date_now env) = [new]
           \<and> otp_code new = newOtpCode env"
proof -
  from sendOtp_otps[OF u, of env] obtain new where
    o: "otps (snd (sendOtp w env email)) =
            map (\<lambda>x. if otp_userId x = user_id user \<and> \<not> otp_isUsed x
                      then x\<lparr>otp_isUsed := True\<rparr> else x) (otps w) @ [new]"
    and n: "otp_userId new = user_id user" "otp_type new = LOGIN" "\<not> otp_isUsed new"
      "otp_code new = newOtpCode env" "otp_expiresAt new = date_now env + 600000"
    by blast
  have "validOtps (snd (sendOtp w env email)) (otp_userId new) (otp_type new) (date_now env) = [new]"
    by (rule issue_exact[OF o]) (simp_all add: n)
  with n show ?thesis by simp
qed

lemma forgotPassword_exact:
  assumes u: "user_findUnique_email w email = Some user"
  shows "\<exists>new. validOtps (snd (forgotPassword w env email)) (user_id user) PASSWORD_RESET
                  (date_now env) = [new]
           \<and> otp_code new = newOtpCode env"
proof -
  from forgotPassword_otps[OF u, of env] obtain new where
    o: "otps (snd (forgotPassword w env email)) =
            map (\<lambda>x. if otp_userId x = user_id user \<and> otp_type x = PASSWORD_RESET
                         \<and> \<not> otp_isUsed x
                      then x\<lparr>otp_isUsed := True\<rparr> else x) (otps w) @ [new]"
    and n: "otp_userId new = user_id user" "otp_type new = PASSWORD_RESET" "\<not> otp_isUsed new"
      "otp_code new = newOtpCode env" "otp_expiresAt new = date_now env + 600000"
    by blast
  have "validOtps (snd (forgotPassword w env email)) (otp_userId new) (otp_type new)
          (date_now env) = [new]"
    by (rule issue_exact[OF o]) (simp_all add: n)
  with n show ?thesis by simp
qed

lemma resendVerificationEmail_exact:
  assumes u: "user_findUnique_email w email = Some user" and nv: "\<not> user_isEmailVerified user"
  shows "\<exists>new. validOtps (snd (resendVerificationEmail w env email)) (user_id user) VERIFICATION
                  (date_now env) = [new]
           \<and> otp_code new = newOtpCode env"
proof -
  from resendVerificationEmail_otps[OF u nv, of env] obtain new where
    o: "otps (snd (resendVerificationEmail w env email)) =
            map (\<lambda>x. if otp_userId x = user_id user \<and> otp_type x = VERIFICATION
                         \<and> \<not> otp_isUsed x
                      then x\<lparr>otp_isUsed := True\<rparr> else x) (otps w) @ [new]"
    and n: "otp_userId new = user_id user" "otp_type new = VERIFICATION" "\<not> otp_isUsed new"
      "otp_code new = newOtpCode env" "otp_expiresAt new = date_now env + 600000"
    by blast
  have "validOtps (snd (resendVerificationEmail w env email)) (otp_userId new) (otp_type new)
          (date_now env) = [new]"
    by (rule issue_exact[OF o]) (simp_all add: n)
  with n show ?thesis by simp
qed

lemma register_exact:
  assumes none: "user_findUnique_email w (dto_email dto) = None"
    and fk: "\<forall>otp \<in> set (otps w). otp_userId otp \<in> set (map user_id (users w))"
  shows "\<exists>new. validOtps (snd (register w env dto)) (cuid (map user_id (users w))) VERIFICATION
                  (date_now env) = [new]
           \<and> otp_code new = newOtpCode env"
proof -
  from register_otps[OF none, of env] obtain new where
    o: "otps (snd (register w env dto)) = otps w @ [new]"
    and n: "otp_userId new = cuid (map user_id (users w))" "otp_type new = VERIFICATION"
      "\<not> otp_isUsed new" "otp_code new = newOtpCode env"
      "otp_expiresAt new = date_now env + 600000"
    by blast
  have o': "otps (snd (register w env dto)) =
      map (\<lambda>x. if False then x\<lparr>otp_isUsed := True\<rparr> else x) (otps w) @ [new]"
    using o by simp
  have no: "otp_userId x \<noteq> otp_userId new" if "x \<in> set (otps w)" for x
    using fk that cuid_fresh[of "map user_id (users w)"] unfolding n by metis
  have "validOtps (snd (register w env dto)) (otp_userId new) (otp_type new) (date_now env) = [new]"
    by (rule issue_exact[OF o']) (use no n in auto)
  with n show ?thesis by simp
qed

text \<open>
  Claim C4. Let every user have, for every type, at most one valid (unused, unexpired) code
  now, and let every code belong to a stored user (the foreign key of the table). Then after
  each issuing operation (\<^verbatim>\<open>sendOtp\<close>, \<^verbatim>\<open>forgotPassword\<close>,
  \<^verbatim>\<open>resendVerificationEmail\<close>, \<^verbatim>\<open>register\<close>), whatever it returns, every user has for
  every type at most one valid code, now and at every later time, and every code still
  belongs to a stored user. Where the operation issues a code, the codes of its scope that
  were unused are used afterwards: the one valid code of the user and the issued type is the
  new one.
\<close>

theorem otp_at_most_one_valid:
  assumes "\<forall>uid ty. length (validOtps w uid ty (date_now env)) \<le> 1"
    and "\<forall>otp \<in> set (otps w). otp_userId otp \<in> set (map user_id (users w))"
    and "date_now env \<le> t"
  shows "length (validOtps (snd (sendOtp w env email)) uid ty t) \<le> 1
    \<and> length (validOtps (snd (forgotPassword w env email)) uid ty t) \<le> 1
    \<and> length (validOtps (snd (resendVerificationEmail w env email)) uid ty t) \<le> 1
    \<and> length (validOtps (snd (register w env dto)) uid ty t) \<le> 1
    \<and> (\<forall>otp \<in> set (otps (snd (sendOtp w env email))).
           otp_userId otp \<in> set (map user_id (users (snd (sendOtp w env email)))))
    \<and> (\<forall>otp \<in> set (otps (snd (forgotPassword w env email))).
           otp_userId otp \<in> set (map user_id (users (snd (forgotPassword w env email)))))
    \<and> (\<forall>otp \<in> set (otps (snd (resendVerificationEmail w env email))).
           otp_userId otp
             \<in> set (map user_id (users (snd (resendVerificationEmail w env email)))))
    \<and> (\<forall>otp \<in> set (otps (snd (register w env dto))).
           otp_userId otp \<in> set (map user_id (users (snd (register w env dto)))))
    \<and> (user_findUnique_email w email = Some user \<longrightarrow>
         (\<exists>new. validOtps (snd (sendOtp w env email)) (user_id user) LOGIN (date_now env) = [new]
            \<and> otp_code new = newOtpCode env))
    \<and> (user_findUnique_email w email = Some user \<longrightarrow>
         (\<exists>new. validOtps (snd (forgotPassword w env email)) (user_id user) PASSWORD_RESET
                   (date_now env) = [new]
            \<and> otp_code new = newOtpCode env))
    \<and> (user_findUnique_email w email = Some user \<and> \<not> user_isEmailVerified user \<longrightarrow>
         (\<exists>new. validOtps (snd (resendVerificationEmail w env email)) (user_id user) VERIFICATION
                   (date_now env) = [new]
            \<and> otp_code new = newOtpCode env))
    \<and> (user_findUnique_email w (dto_email dto) = None \<longrightarrow>
         (\<exists>new. validOtps (snd (register w env dto)) (cuid (map user_id (users w))) VERIFICATION
                   (date_now env) = [new]
            \<and> otp_code new = newOtpCode env))"
  apply (intro conjI impI)
  subgoal by (rule sendOtp_bound[OF assms(1,3)])
  subgoal by (rule forgotPassword_bound[OF assms(1,3)])
  subgoal by (rule resendVerificationEmail_bound[OF assms(1,3)])
  subgoal by (rule register_bound[OF assms])
  subgoal by (rule sendOtp_fk[OF assms(2)])
  subgoal by (rule forgotPassword_fk[OF assms(2)])
  subgoal by (rule resendVerificationEmail_fk[OF assms(2)])
  subgoal by (rule register_fk[OF assms(2)])
  subgoal by (rule sendOtp_exact)
  subgoal by (rule forgotPassword_exact)
  subgoal by (elim conjE) (rule resendVerificationEmail_exact)
  subgoal by (rule register_exact[OF _ assms(2)])
  done

text \<open>
  Witness for C4: Ann's store, with one valid code of two types, stays within the bound
  under each of the four operations, and after \<^verbatim>\<open>forgotPassword\<close> her one valid
  PASSWORD_RESET code is the new one, 550000.
\<close>

theorem otp_at_most_one_valid_witness:
  "(\<forall>uid ty. length (validOtps world_otp uid ty (date_now env0)) \<le> 1)
   \<and> otp_userId ` set (otps world_otp) \<subseteq> user_id ` set (users world_otp)
   \<and> date_now env0 \<le> 600
   \<and> user_findUnique_email world_otp ''a@x.com'' = Some alice
   \<and> validOtps world_otp 1 PASSWORD_RESET (date_now env0) = [otp_p]
   \<and> length (validOtps (snd (sendOtp world_otp env0 ''a@x.com'')) 1 LOGIN 600) \<le> 1
   \<and> length (validOtps (snd (forgotPassword world_otp env0 ''a@x.com'')) 1 PASSWORD_RESET 600) \<le> 1
   \<and> length (validOtps (snd (resendVerificationEmail world_otp env0 ''a@x.com'')) 1 VERIFICATION 600) \<le> 1
   \<and> length (validOtps (snd (register world_otp env0 bob_dto)) 2 VERIFICATION 600) \<le> 1
   \<and> (\<exists>new. validOtps (snd (forgotPassword world_otp env0 ''a@x.com'')) 1 PASSWORD_RESET
                (date_now env0) = [new]
          \<and> otp_code new = ''550000'')"
proof -
  have a: "\<forall>uid ty. length (validOtps world_otp uid ty (date_now env0)) \<le> 1"
    by (simp add: validOtps_def ex_defs otp_ex_defs)
  have b: "\<forall>otp \<in> set (otps world_otp). otp_userId otp \<in> set (map user_id (users world_otp))"
    by (simp add: ex_defs otp_ex_defs)
  have c: "date_now env0 \<le> 600" by (simp add: env0_def)
  have d: "validOtps world_otp 1 PASSWORD_RESET (date_now env0) = [otp_p]"
    by (simp add: validOtps_def ex_defs otp_ex_defs)
  have u: "user_findUnique_email world_otp ''a@x.com'' = Some alice"
    by (simp add: user_findUnique_email_def ex_defs otp_ex_defs)
  have i: "user_id alice = 1" by (simp add: alice_def)
  note T = otp_at_most_one_valid[OF a b c, where email = "''a@x.com''" and dto = bob_dto
      and user = alice]
  note c2 = conjunct2
  from T[where uid = 1 and ty = LOGIN, THEN conjunct1]
  have 1: "length (validOtps (snd (sendOtp world_otp env0 ''a@x.com'')) 1 LOGIN 600) \<le> 1" .
  from T[where uid = 1 and ty = PASSWORD_RESET, THEN c2, THEN conjunct1]
  have 2: "length (validOtps (snd (forgotPassword world_otp env0 ''a@x.com'')) 1
             PASSWORD_RESET 600) \<le> 1" .
  from T[where uid = 1 and ty = VERIFICATION, THEN c2, THEN c2, THEN conjunct1]
  have 3: "length (validOtps (snd (resendVerificationEmail world_otp env0 ''a@x.com'')) 1
             VERIFICATION 600) \<le> 1" .
  from T[where uid = 2 and ty = VERIFICATION, THEN c2, THEN c2, THEN c2, THEN conjunct1]
  have 4: "length (validOtps (snd (register world_otp env0 bob_dto)) 2 VERIFICATION 600) \<le> 1" .
  from T[where uid = 1 and ty = LOGIN, THEN c2, THEN c2, THEN c2, THEN c2, THEN c2, THEN c2,
      THEN c2, THEN c2, THEN c2, THEN conjunct1, THEN mp, OF u]
  have 5: "\<exists>new. validOtps (snd (forgotPassword world_otp env0 ''a@x.com'')) 1 PASSWORD_RESET
                (date_now env0) = [new]
          \<and> otp_code new = ''550000''"
    unfolding i newOtpCode_env0 .
  from b have b': "otp_userId ` set (otps world_otp) \<subseteq> user_id ` set (users world_otp)"
    by auto
  from a b' c u d 1 2 3 4 5 show ?thesis by simp
qed

end
